theory Spec2Isabelle
  imports Main
begin

unbundle bit_operations_syntax

section \<open>Python values used by the upload hook\<close>

text \<open>
  The hook \<^verbatim>\<open>before_upload\<close> of \<^verbatim>\<open>upload_extra_script.py\<close> handles two kinds of
  Python objects: \<^verbatim>\<open>str\<close> and \<^verbatim>\<open>pathlib\<close> paths. A path is modelled by its
  \<^verbatim>\<open>parts\<close>, root first: \<^verbatim>\<open>Path('/media/u/REARM').parts\<close> is
  \<^verbatim>\<open>('/', 'media', 'u', 'REARM')\<close>. Login names and directory entry names are single
  path segments.
\<close>

datatype path = Path (parts: "string list")

definition is_absolute :: "path \<Rightarrow> bool" where
  "is_absolute p = (case parts p of [] \<Rightarrow> False | r # _ \<Rightarrow> r = ''/'')"

text \<open>The operator \<^verbatim>\<open>p / q\<close>: an absolute right operand replaces the left one.\<close>

definition joinpath :: "path \<Rightarrow> path \<Rightarrow> path" where
  "joinpath p q = (if is_absolute q then q else Path (parts p @ parts q))"

text \<open>\<^verbatim>\<open>p.name\<close>: the last part, and the empty string for a bare root or an empty path.\<close>

definition name :: "path \<Rightarrow> string" where
  "name p = (if length (parts p) = (if is_absolute p then 1 else 0) then [] else last (parts p))"

fun join_slash :: "string list \<Rightarrow> string" where
  "join_slash [] = []"
| "join_slash [s] = s"
| "join_slash (s # t # ts) = s @ ''/'' @ join_slash (t # ts)"

text \<open>\<^verbatim>\<open>str(p)\<close>.\<close>

definition path_str :: "path \<Rightarrow> string" where
  "path_str p =
     (case parts p of
        [] \<Rightarrow> ''.''
      | r # rest \<Rightarrow> if r = ''/'' then ''/'' @ join_slash rest else join_slash (r # rest))"

text \<open>\<^verbatim>\<open>PureWindowsPath('L:')\<close> has the drive as its only part and prints as \<^verbatim>\<open>L:\<close>.\<close>

definition PureWindowsPath :: "string \<Rightarrow> path" where
  "PureWindowsPath final_drive_name = Path [final_drive_name]"

datatype pyval = PyStr string | PyPath path

fun py_str :: "pyval \<Rightarrow> string" where
  "py_str (PyStr s) = s"
| "py_str (PyPath p) = path_str p"

text \<open>
  \<^verbatim>\<open>a == b\<close>. Two strings compare by content, two paths by their parts. For a string
  and a path both \<^verbatim>\<open>str.__eq__\<close> and \<^verbatim>\<open>PurePath.__eq__\<close> answer
  \<^verbatim>\<open>NotImplemented\<close>, so Python falls back to object identity and the result is
  \<^verbatim>\<open>False\<close>.
\<close>

fun py_eq :: "pyval \<Rightarrow> pyval \<Rightarrow> bool" where
  "py_eq (PyStr a) (PyStr b) = (a = b)"
| "py_eq (PyPath a) (PyPath b) = (a = b)"
| "py_eq (PyStr a) (PyPath b) = False"
| "py_eq (PyPath a) (PyStr b) = False"

text \<open>\<^verbatim>\<open>x in xs\<close> for a list \<^verbatim>\<open>xs\<close>: some element equals \<^verbatim>\<open>x\<close>.\<close>

fun py_in :: "pyval \<Rightarrow> pyval list \<Rightarrow> bool" where
  "py_in x [] = False"
| "py_in x (e # es) = (py_eq e x \<or> py_in x es)"

text \<open>\<^verbatim>\<open>sub in s\<close> for two strings: \<^verbatim>\<open>sub\<close> occurs in \<^verbatim>\<open>s\<close> as a substring.\<close>

fun startswith :: "string \<Rightarrow> string \<Rightarrow> bool" where
  "startswith s [] = True"
| "startswith [] (c # cs) = False"
| "startswith (x # xs) (c # cs) = (x = c \<and> startswith xs cs)"

fun str_in :: "string \<Rightarrow> string \<Rightarrow> bool" where
  "str_in sub [] = (sub = [])"
| "str_in sub (x # xs) = (startswith (x # xs) sub \<or> str_in sub xs)"

section \<open>The host the hook runs on\<close>

text \<open>
  Everything the hook reads from its host is a field of \<open>world\<close>. A call that can
  raise returns a sum, \<open>Inl\<close> carrying \<^verbatim>\<open>str(e)\<close> of the exception.
  \<^item> \<open>current_OS\<close>: \<^verbatim>\<open>platform.system()\<close>;
  \<^item> \<open>GetLogicalDrives\<close>: \<^verbatim>\<open>windll.kernel32.GetLogicalDrives()\<close>;
  \<^item> \<open>check_output\<close>: \<^verbatim>\<open>str(subprocess.check_output(cmd, stderr=subprocess.STDOUT))\<close>
    for the command line \<^verbatim>\<open>cmd\<close>;
  \<^item> \<open>getuser\<close>: \<^verbatim>\<open>getpass.getuser()\<close>, which raises when the login name cannot
    be found;
  \<^item> \<open>listdir\<close>: the entry names of a directory, which \<^verbatim>\<open>Path.iterdir\<close> turns into
    child paths;
  \<^item> \<open>is_dir\<close>, \<open>is_file\<close>: \<^verbatim>\<open>Path.is_dir()\<close> and \<^verbatim>\<open>Path.is_file()\<close>. They
    answer \<^verbatim>\<open>False\<close> for a path that does not exist, and raise the \<^verbatim>\<open>OSError\<close> of
    \<^verbatim>\<open>stat\<close> otherwise (permission denied, a stale mount).
  Every exception of these calls is an instance of \<^verbatim>\<open>Exception\<close>. \<^verbatim>\<open>print\<close> and
  \<^verbatim>\<open>env.get\<close> do not raise.
\<close>

record world =
  current_OS :: string
  GetLogicalDrives :: int
  check_output :: "string \<Rightarrow> string + string"
  getuser :: "string + string"
  listdir :: "path \<Rightarrow> string + string list"
  is_dir :: "path \<Rightarrow> string + bool"
  is_file :: "path \<Rightarrow> string + bool"

definition iterdir :: "world \<Rightarrow> path \<Rightarrow> string + path list" where
  "iterdir w p =
     (case listdir w p of
        Inl e \<Rightarrow> Inl e
      | Inr names \<Rightarrow> Inr (map (\<lambda>n. Path (parts p @ [n])) names))"

text \<open>
  A comprehension \<^verbatim>\<open>[ x for x in xs if test(x) ]\<close> whose test can raise: the elements
  are tested in order and the first exception ends the comprehension.
\<close>

fun filter_raising :: "('a \<Rightarrow> string + bool) \<Rightarrow> 'a list \<Rightarrow> string + 'a list" where
  "filter_raising test [] = Inr []"
| "filter_raising test (x # xs) =
     (case test x of
        Inl e \<Rightarrow> Inl e
      | Inr b \<Rightarrow>
          (case filter_raising test xs of
             Inl e \<Rightarrow> Inl e
           | Inr ys \<Rightarrow> Inr (if b then x # ys else ys)))"

text \<open>
  The build configuration \<^verbatim>\<open>env\<close> is a dictionary of strings. What the hook does to
  its surroundings is recorded in order as a list of effects: a call
  \<^verbatim>\<open>env.Replace(KEY=value)\<close> or a call of \<^verbatim>\<open>print\<close>.
\<close>

type_synonym env = "string \<rightharpoonup> string"

datatype effect = Replace string string | Print string

fun apply_effects :: "effect list \<Rightarrow> env \<Rightarrow> env" where
  "apply_effects [] env = env"
| "apply_effects (Replace k v # es) env = apply_effects es (env(k \<mapsto> v))"
| "apply_effects (Print s # es) env = apply_effects es env"

fun is_Replace :: "effect \<Rightarrow> bool" where
  "is_Replace (Replace k v) = True"
| "is_Replace (Print s) = False"

section \<open>The hook\<close>

definition target_filename :: string where
  "target_filename = ''FIRMWARE.CUR''"

definition target_drive :: string where
  "target_drive = ''REARM''"

text \<open>\<^verbatim>\<open>env.get('PIOENV')\<close> formatted with \<^verbatim>\<open>%s\<close>.\<close>

definition pioenv :: "env \<Rightarrow> string" where
  "pioenv env = (case env ''PIOENV'' of None \<Rightarrow> ''None'' | Some v \<Rightarrow> v)"

definition print_error :: "env \<Rightarrow> string \<Rightarrow> effect" where
  "print_error env e =
     Print (''\<newline>Unable to find destination disk ('' @ e @ '')\<newline>'' @
            ''Please select it in platformio.ini using the upload_port keyword '' @
            ''(https://docs.platformio.org/en/latest/projectconf/section_env_upload.html) '' @
            ''or copy the firmware (.pio/build/'' @ pioenv env @
            ''/firmware.bin) manually to the appropriate disk\<newline>'')"

text \<open>The local variables of \<^verbatim>\<open>before_upload\<close>, and the effects so far.\<close>

record state =
  upload_disk :: pyval
  target_file_found :: bool
  target_drive_found :: bool
  effects :: "effect list"

definition initial :: state where
  "initial = \<lparr>upload_disk = PyStr ''Disk not found'', target_file_found = False,
              target_drive_found = False, effects = []\<rparr>"

definition ascii_uppercase :: string where
  "ascii_uppercase = ''ABCDEFGHIJKLMNOPQRSTUVWXYZ''"

text \<open>Lines 46 to 51: one drive letter for each set bit, lowest bit first.\<close>

fun get_drives :: "int \<Rightarrow> string \<Rightarrow> string" where
  "get_drives bitmask [] = []"
| "get_drives bitmask (letter # letters) =
     (if bitmask AND 1 \<noteq> 0 then [letter] else []) @ get_drives (drop_bit 1 bitmask) letters"

text \<open>Lines 53 to 75: the loop over the drives; \<^verbatim>\<open>continue\<close> is the recursive call,
  \<^verbatim>\<open>break\<close> returns the state.\<close>

fun scan_windows :: "world \<Rightarrow> string \<Rightarrow> state \<Rightarrow> state" where
  "scan_windows w [] s = s"
| "scan_windows w (drive # drives) s =
     (let final_drive_name = [drive] @ '':'' in
      case check_output w (''cmd /C vol '' @ final_drive_name) of
        Inl e \<Rightarrow> scan_windows w drives (s\<lparr>effects := effects s @ [Print (''error:'' @ e)]\<rparr>)
      | Inr volume_info \<Rightarrow>
          if str_in target_drive volume_info
          then s\<lparr>upload_disk := PyPath (PureWindowsPath final_drive_name),
                 target_drive_found := True\<rparr>
          else (case check_output w (''cmd /C dir '' @ final_drive_name) of
                  Inl e \<Rightarrow>
                    scan_windows w drives (s\<lparr>effects := effects s @ [Print (''error:'' @ e)]\<rparr>)
                | Inr dir_info \<Rightarrow>
                    if str_in target_filename dir_info
                    then s\<lparr>upload_disk := PyPath (PureWindowsPath final_drive_name),
                           target_file_found := True\<rparr>
                    else scan_windows w drives s))"

text \<open>Lines 84 and 114: \<^verbatim>\<open>[ x for x in root.iterdir() if x.is_dir() ]\<close>, a list of
  paths, or the exception of \<^verbatim>\<open>iterdir\<close> or of the first \<^verbatim>\<open>is_dir\<close> that raises.
  No handler but the one of line 139 covers these two lines.\<close>

definition subdirs :: "world \<Rightarrow> path \<Rightarrow> string + path list" where
  "subdirs w root =
     (case iterdir w root of Inl e \<Rightarrow> Inl e | Inr xs \<Rightarrow> filter_raising (is_dir w) xs)"

text \<open>Lines 92 and 121: \<^verbatim>\<open>[ x.name for x in fpath.iterdir() if x.is_file() ]\<close>, or the
  exception of \<^verbatim>\<open>iterdir\<close> or of the first \<^verbatim>\<open>is_file\<close> that raises.\<close>

definition filenames_of :: "world \<Rightarrow> path \<Rightarrow> string + string list" where
  "filenames_of w fpath =
     (case iterdir w fpath of
        Inl e \<Rightarrow> Inl e
      | Inr xs \<Rightarrow>
          (case filter_raising (is_file w) xs of
             Inl e \<Rightarrow> Inl e
           | Inr fs \<Rightarrow> Inr (map name fs)))"

text \<open>Lines 89 to 99 and, with the same text, 118 to 128: the loop over the
  subdirectories. The bare \<^verbatim>\<open>except\<close> skips a directory for which line 92 raises.\<close>

fun scan_dirs :: "world \<Rightarrow> path \<Rightarrow> path list \<Rightarrow> state \<Rightarrow> state" where
  "scan_dirs w root [] s = s"
| "scan_dirs w root (drive # drives) s =
     (let fpath = joinpath root drive in
      case filenames_of w fpath of
        Inl e \<Rightarrow> scan_dirs w root drives s
      | Inr filenames \<Rightarrow>
          if py_in (PyStr target_filename) (map PyStr filenames)
          then s\<lparr>upload_disk := PyPath (joinpath root drive), target_file_found := True\<rparr>
          else scan_dirs w root drives s)"

text \<open>Lines 81 to 107. \<^verbatim>\<open>drives\<close> is a list of paths and \<^verbatim>\<open>target_drive\<close> a string.\<close>

definition linux_branch :: "world \<Rightarrow> state \<Rightarrow> string + state" where
  "linux_branch w s =
     (case getuser w of
        Inl e \<Rightarrow> Inl e
      | Inr user \<Rightarrow>
          (let mpath = joinpath (Path [''/'', ''media'']) (Path [user]) in
           case subdirs w mpath of
             Inl e \<Rightarrow> Inl e
           | Inr drives \<Rightarrow>
               (let s1 = (if py_in (PyStr target_drive) (map PyPath drives)
                          then s\<lparr>target_drive_found := True,
                                 upload_disk := PyPath (joinpath mpath (Path [target_drive]))\<rparr>
                          else scan_dirs w mpath drives s) in
                Inr (if target_file_found s1 \<or> target_drive_found s1
                     then s1\<lparr>effects := effects s1 @
                                      [Replace ''UPLOAD_FLAGS'' ''-P$UPLOAD_PORT'']\<rparr>
                     else s1))))"

text \<open>Lines 113 to 128.\<close>

definition darwin_branch :: "world \<Rightarrow> state \<Rightarrow> string + state" where
  "darwin_branch w s =
     (let dpath = Path [''/'', ''Volumes''] in
      case subdirs w dpath of
        Inl e \<Rightarrow> Inl e
      | Inr drives \<Rightarrow>
          (let s1 = (if py_in (PyStr target_drive) (map PyPath drives) \<and> \<not> target_file_found s
                     then s\<lparr>target_drive_found := True,
                            upload_disk := PyPath (joinpath dpath (Path [target_drive]))\<rparr>
                     else s) in
           Inr (scan_dirs w dpath drives s1)))"

text \<open>Lines 133 to 137.\<close>

definition finish :: "env \<Rightarrow> state \<Rightarrow> state" where
  "finish env s =
     (if target_file_found s \<or> target_drive_found s
      then s\<lparr>effects := effects s @
                [Replace ''UPLOAD_PORT'' (py_str (upload_disk s)),
                 Print (''\<newline>Upload disk:  '' @ py_str (upload_disk s) @ '' \<newline>'')]\<rparr>
      else s\<lparr>effects := effects s @ [print_error env ''Autodetect Error'']\<rparr>)"

text \<open>Lines 29 to 137, the body of the \<^verbatim>\<open>try\<close>: \<open>Inl\<close> is an exception that
  reaches line 139. The statements that can raise outside a handler of their own are
  \<^verbatim>\<open>getpass.getuser()\<close> of line 82 and the comprehensions of lines 84 and 114; they
  come before any effect.\<close>

definition try_body :: "world \<Rightarrow> env \<Rightarrow> string + state" where
  "try_body w env =
     (case (if current_OS w = ''Windows''
            then Inr (scan_windows w (get_drives (GetLogicalDrives w) ascii_uppercase) initial)
            else if current_OS w = ''Linux'' then linux_branch w initial
            else if current_OS w = ''Darwin'' then darwin_branch w initial
            else Inr initial) of
        Inl e \<Rightarrow> Inl e
      | Inr s \<Rightarrow> Inr (finish env s))"

text \<open>Lines 27 to 140: the hook. \<open>Inr\<close> is a return to the caller, with the list
  of the effects of the run; \<open>Inl\<close> is an exception that leaves the hook. The handler
  of line 139 turns an exception of the body into a call of \<^verbatim>\<open>print_error\<close>, which
  reads only \<^verbatim>\<open>PIOENV\<close>, a key that the hook never writes.\<close>

definition before_upload :: "world \<Rightarrow> env \<Rightarrow> string + effect list" where
  "before_upload w env =
     (case try_body w env of
        Inl e \<Rightarrow> Inr [print_error env e]
      | Inr s \<Rightarrow> Inr (effects s))"

section \<open>Candidates and what it means for one to match\<close>

text \<open>The two roots whose subdirectories are the candidates on Linux and on macOS.\<close>

definition media_root :: "string \<Rightarrow> path" where
  "media_root user = joinpath (Path [''/'', ''media'']) (Path [user])"

definition volumes_root :: path where
  "volumes_root = Path [''/'', ''Volumes'']"

text \<open>A directory can be listed: the names of its regular files are obtained without
  an exception.\<close>

definition can_list :: "world \<Rightarrow> path \<Rightarrow> bool" where
  "can_list w d = (case filenames_of w d of Inl e \<Rightarrow> False | Inr names \<Rightarrow> True)"

text \<open>A directory contains the target filename: it can be listed and one of its
  regular files has that name.\<close>

definition has_file :: "world \<Rightarrow> path \<Rightarrow> bool" where
  "has_file w d =
     (case filenames_of w d of
        Inl e \<Rightarrow> False
      | Inr names \<Rightarrow> target_filename \<in> set names)"

text \<open>The two queries of a Windows drive.\<close>

definition vol :: "world \<Rightarrow> char \<Rightarrow> string + string" where
  "vol w drive = check_output w (''cmd /C vol '' @ [drive] @ '':'')"

definition dir :: "world \<Rightarrow> char \<Rightarrow> string + string" where
  "dir w drive = check_output w (''cmd /C dir '' @ [drive] @ '':'')"

text \<open>A Windows drive matches by label when its volume information is obtained and
  contains the target label; it matches by filename when its volume information is
  obtained and its directory listing is obtained and contains the target filename.\<close>

definition label_match :: "world \<Rightarrow> char \<Rightarrow> bool" where
  "label_match w drive =
     (case vol w drive of Inl e \<Rightarrow> False | Inr volume_info \<Rightarrow> str_in target_drive volume_info)"

definition file_match :: "world \<Rightarrow> char \<Rightarrow> bool" where
  "file_match w drive =
     (case vol w drive of
        Inl e \<Rightarrow> False
      | Inr volume_info \<Rightarrow>
          (case dir w drive of
             Inl e \<Rightarrow> False
           | Inr dir_info \<Rightarrow> str_in target_filename dir_info))"

text \<open>A Windows drive answers its queries: the volume query succeeds, and so does the
  directory query when the scan gets to it.\<close>

definition can_query :: "world \<Rightarrow> char \<Rightarrow> bool" where
  "can_query w drive =
     (case vol w drive of
        Inl e \<Rightarrow> False
      | Inr volume_info \<Rightarrow>
          str_in target_drive volume_info \<or> (case dir w drive of Inl e \<Rightarrow> False | Inr d \<Rightarrow> True))"

text \<open>The \<^verbatim>\<open>error:\<close> lines that scanning a list of drives to its end prints: one
  for a failed volume query, or one for a failed directory query after a volume query
  without the label.\<close>

fun query_errors :: "world \<Rightarrow> string \<Rightarrow> effect list" where
  "query_errors w [] = []"
| "query_errors w (drive # drives) =
     (case vol w drive of
        Inl e \<Rightarrow> [Print (''error:'' @ e)]
      | Inr volume_info \<Rightarrow>
          if str_in target_drive volume_info then []
          else (case dir w drive of Inl e \<Rightarrow> [Print (''error:'' @ e)] | Inr d \<Rightarrow> []))
     @ query_errors w drives"

text \<open>The three local variables of a state, without the effects.\<close>

definition locals :: "state \<Rightarrow> pyval \<times> bool \<times> bool" where
  "locals s = (upload_disk s, target_file_found s, target_drive_found s)"

text \<open>The success message of line 135 for a path string.\<close>

definition upload_disk_line :: "string \<Rightarrow> effect" where
  "upload_disk_line p = Print (''\<newline>Upload disk:  '' @ p @ '' \<newline>'')"

text \<open>A Windows drive matches one of the two tests of the loop.\<close>

definition drive_matches :: "world \<Rightarrow> char \<Rightarrow> bool" where
  "drive_matches w drive = (label_match w drive \<or> file_match w drive)"

text \<open>No candidate of the current operating system matches, by label or by file: on
  Windows by the tests of the loop on the output of the two commands, on Linux and on
  macOS by the name of the subdirectory and the names of its regular files.\<close>

definition no_candidate_matches :: "world \<Rightarrow> bool" where
  "no_candidate_matches w =
     (if current_OS w = ''Windows''
      then \<forall>d \<in> set (get_drives (GetLogicalDrives w) ascii_uppercase).
             \<not> label_match w d \<and> \<not> file_match w d
      else if current_OS w = ''Linux''
      then (case getuser w of
              Inl e \<Rightarrow> False
            | Inr user \<Rightarrow>
                (case subdirs w (media_root user) of
                   Inl e \<Rightarrow> False
                 | Inr ds \<Rightarrow> \<forall>d \<in> set ds. name d \<noteq> target_drive \<and> \<not> has_file w d))
      else if current_OS w = ''Darwin''
      then (case subdirs w volumes_root of
              Inl e \<Rightarrow> False
            | Inr ds \<Rightarrow> \<forall>d \<in> set ds. name d \<noteq> target_drive \<and> \<not> has_file w d)
      else True)"

section \<open>Example hosts\<close>

text \<open>A host with a POSIX file system given by the listings of its readable
  directories, its unreadable directories and its regular files.\<close>

definition posix_host ::
  "string \<Rightarrow> string \<Rightarrow> (path \<times> string list) list \<Rightarrow> path list \<Rightarrow> path list \<Rightarrow> world" where
  "posix_host os user listings denied files =
     \<lparr>current_OS = os, GetLogicalDrives = 0,
      check_output = (\<lambda>cmd. Inl ''[Errno 2] No such file or directory''),
      getuser = Inr user,
      listdir = (\<lambda>p. case map_of listings p of
                        Some names \<Rightarrow> Inr names
                      | None \<Rightarrow>
                          if p \<in> set denied
                          then Inl (''[Errno 13] Permission denied: '' @ path_str p)
                          else Inl (''[Errno 2] No such file or directory: '' @ path_str p)),
      is_dir = (\<lambda>p. Inr (map_of listings p \<noteq> None \<or> p \<in> set denied)),
      is_file = (\<lambda>p. Inr (p \<in> set files))\<rparr>"

text \<open>A Windows host given by its drive bitmask and the answers to its commands.\<close>

definition windows_host :: "int \<Rightarrow> (string \<times> (string + string)) list \<Rightarrow> world" where
  "windows_host bitmask answers =
     \<lparr>current_OS = ''Windows'', GetLogicalDrives = bitmask,
      check_output = (\<lambda>cmd. case map_of answers cmd of
                             Some r \<Rightarrow> r
                           | None \<Rightarrow> Inl ''Command returned non-zero exit status 1.''),
      getuser = Inr ''user'',
      listdir = (\<lambda>p. Inl ''[WinError 3] The system cannot find the path specified''),
      is_dir = (\<lambda>p. Inr False),
      is_file = (\<lambda>p. Inr False)\<rparr>"

text \<open>The output of \<^verbatim>\<open>vol\<close> for a drive with a label, and the output of \<^verbatim>\<open>dir\<close> for
  a drive with the given files: each prints, among other text, the label and the names
  of the files.\<close>

definition vol_text :: "char \<Rightarrow> string \<Rightarrow> string" where
  "vol_text drive label = '' Volume in drive '' @ [drive] @ '' is '' @ label"

definition dir_text :: "char \<Rightarrow> string list \<Rightarrow> string" where
  "dir_text drive files = '' Directory of '' @ [drive] @ '':'' @ concat (map (\<lambda>f. ''  '' @ f) files)"

text \<open>A Windows host given by its drive bitmask and, for each drive, its letter, its
  label and the names of its files.\<close>

definition windows_volumes :: "int \<Rightarrow> (char \<times> string \<times> string list) list \<Rightarrow> world" where
  "windows_volumes bitmask volumes =
     windows_host bitmask
       (concat (map (\<lambda>(drive, label, files).
                       [(''cmd /C vol '' @ [drive] @ '':'', Inr (vol_text drive label)),
                        (''cmd /C dir '' @ [drive] @ '':'', Inr (dir_text drive files))])
                    volumes))"

text \<open>\<^verbatim>\<open>/media/user\<close> holds the directories \<^verbatim>\<open>REARM\<close> (empty) and \<^verbatim>\<open>OTHER\<close>, which
  holds the file \<^verbatim>\<open>FIRMWARE.CUR\<close>.\<close>

definition linux_rearm_other_file :: world where
  "linux_rearm_other_file =
     posix_host ''Linux'' ''user''
       [(Path [''/'', ''media'', ''user''], [''REARM'', ''OTHER'']),
        (Path [''/'', ''media'', ''user'', ''REARM''], []),
        (Path [''/'', ''media'', ''user'', ''OTHER''], [''FIRMWARE.CUR''])]
       []
       [Path [''/'', ''media'', ''user'', ''OTHER'', ''FIRMWARE.CUR'']]"

text \<open>\<^verbatim>\<open>/media/user\<close> holds the empty directories \<^verbatim>\<open>REARM\<close> and \<^verbatim>\<open>OTHER\<close>.\<close>

definition linux_rearm_other :: world where
  "linux_rearm_other =
     posix_host ''Linux'' ''user''
       [(Path [''/'', ''media'', ''user''], [''REARM'', ''OTHER'']),
        (Path [''/'', ''media'', ''user'', ''REARM''], []),
        (Path [''/'', ''media'', ''user'', ''OTHER''], [])]
       [] []"

text \<open>\<^verbatim>\<open>/Volumes\<close> holds the empty directories \<^verbatim>\<open>Macintosh HD\<close> and \<^verbatim>\<open>REARM\<close>.\<close>

definition darwin_rearm :: world where
  "darwin_rearm =
     posix_host ''Darwin'' ''user''
       [(Path [''/'', ''Volumes''], [''Macintosh HD'', ''REARM'']),
        (Path [''/'', ''Volumes'', ''Macintosh HD''], []),
        (Path [''/'', ''Volumes'', ''REARM''], [])]
       [] []"

text \<open>\<^verbatim>\<open>/media/user\<close> holds the directories \<^verbatim>\<open>OTHER1\<close> (empty) and \<^verbatim>\<open>OTHER2\<close>, which
  holds the file \<^verbatim>\<open>FIRMWARE.CUR\<close>.\<close>

definition linux_other2_file :: world where
  "linux_other2_file =
     posix_host ''Linux'' ''user''
       [(Path [''/'', ''media'', ''user''], [''OTHER1'', ''OTHER2'']),
        (Path [''/'', ''media'', ''user'', ''OTHER1''], []),
        (Path [''/'', ''media'', ''user'', ''OTHER2''], [''FIRMWARE.CUR''])]
       []
       [Path [''/'', ''media'', ''user'', ''OTHER2'', ''FIRMWARE.CUR'']]"

text \<open>\<^verbatim>\<open>/media/user\<close> holds the directories \<^verbatim>\<open>OTHER1\<close>, with a file \<^verbatim>\<open>README.TXT\<close>,
  and \<^verbatim>\<open>OTHER2\<close>, empty.\<close>

definition linux_no_match :: world where
  "linux_no_match =
     posix_host ''Linux'' ''user''
       [(Path [''/'', ''media'', ''user''], [''OTHER1'', ''OTHER2'']),
        (Path [''/'', ''media'', ''user'', ''OTHER1''], [''README.TXT'']),
        (Path [''/'', ''media'', ''user'', ''OTHER2''], [])]
       []
       [Path [''/'', ''media'', ''user'', ''OTHER1'', ''README.TXT'']]"

text \<open>\<^verbatim>\<open>/media/user\<close> holds the directory \<^verbatim>\<open>LOCKED\<close>, which cannot be listed, and the
  directory \<^verbatim>\<open>DISK\<close>, which holds the file \<^verbatim>\<open>FIRMWARE.CUR\<close>.\<close>

definition linux_locked_disk :: world where
  "linux_locked_disk =
     posix_host ''Linux'' ''user''
       [(Path [''/'', ''media'', ''user''], [''LOCKED'', ''DISK'']),
        (Path [''/'', ''media'', ''user'', ''DISK''], [''FIRMWARE.CUR''])]
       [Path [''/'', ''media'', ''user'', ''LOCKED'']]
       [Path [''/'', ''media'', ''user'', ''DISK'', ''FIRMWARE.CUR'']]"

text \<open>A Linux host without \<^verbatim>\<open>/media/user\<close>.\<close>

definition linux_no_media :: world where
  "linux_no_media = posix_host ''Linux'' ''user'' [] [] []"

text \<open>\<^verbatim>\<open>/Volumes\<close> holds the directories \<^verbatim>\<open>REARM\<close> (empty) and \<^verbatim>\<open>DISK\<close>, which holds
  the file \<^verbatim>\<open>FIRMWARE.CUR\<close>.\<close>

definition darwin_rearm_disk :: world where
  "darwin_rearm_disk =
     posix_host ''Darwin'' ''user''
       [(Path [''/'', ''Volumes''], [''REARM'', ''DISK'']),
        (Path [''/'', ''Volumes'', ''REARM''], []),
        (Path [''/'', ''Volumes'', ''DISK''], [''FIRMWARE.CUR''])]
       []
       [Path [''/'', ''Volumes'', ''DISK'', ''FIRMWARE.CUR'']]"

text \<open>\<^verbatim>\<open>/Volumes\<close> holds the directories \<^verbatim>\<open>A\<close> and \<^verbatim>\<open>B\<close>, each with a file
  \<^verbatim>\<open>FIRMWARE.CUR\<close>.\<close>

definition darwin_two_copies :: world where
  "darwin_two_copies =
     posix_host ''Darwin'' ''user''
       [(Path [''/'', ''Volumes''], [''A'', ''B'']),
        (Path [''/'', ''Volumes'', ''A''], [''FIRMWARE.CUR'']),
        (Path [''/'', ''Volumes'', ''B''], [''FIRMWARE.CUR''])]
       []
       [Path [''/'', ''Volumes'', ''A'', ''FIRMWARE.CUR''],
        Path [''/'', ''Volumes'', ''B'', ''FIRMWARE.CUR'']]"

text \<open>A Windows host with the drives \<^verbatim>\<open>A\<close>, \<^verbatim>\<open>C\<close> and \<^verbatim>\<open>D\<close> (bits 0, 2 and 3):
  \<^verbatim>\<open>A\<close> is not ready, \<^verbatim>\<open>C\<close> has no label and holds \<^verbatim>\<open>FIRMWARE.CUR\<close>, \<^verbatim>\<open>D\<close> is
  labelled \<^verbatim>\<open>REARM\<close>.\<close>

definition windows_c_file_d_label :: world where
  "windows_c_file_d_label =
     windows_host 13
       [(''cmd /C vol A:'', Inl ''Command returned non-zero exit status 1.''),
        (''cmd /C vol C:'', Inr '' Volume in drive C has no label.''),
        (''cmd /C dir C:'', Inr '' Directory of C:  FIRMWARE.CUR  README.TXT''),
        (''cmd /C vol D:'', Inr '' Volume in drive D is REARM''),
        (''cmd /C dir D:'', Inr '' Directory of D:  FIRMWARE.CUR'')]"

text \<open>\<^verbatim>\<open>/Volumes\<close> holds the directories \<^verbatim>\<open>REARM\<close> and \<^verbatim>\<open>DISK\<close>, each with a file
  \<^verbatim>\<open>FIRMWARE.CUR\<close>.\<close>

definition darwin_rearm_disk_copies :: world where
  "darwin_rearm_disk_copies =
     posix_host ''Darwin'' ''user''
       [(Path [''/'', ''Volumes''], [''REARM'', ''DISK'']),
        (Path [''/'', ''Volumes'', ''REARM''], [''FIRMWARE.CUR'']),
        (Path [''/'', ''Volumes'', ''DISK''], [''FIRMWARE.CUR''])]
       []
       [Path [''/'', ''Volumes'', ''REARM'', ''FIRMWARE.CUR''],
        Path [''/'', ''Volumes'', ''DISK'', ''FIRMWARE.CUR'']]"

text \<open>\<^verbatim>\<open>/media/user\<close> holds the entry \<^verbatim>\<open>STALE\<close>, a mount point whose \<^verbatim>\<open>stat\<close> fails,
  and the directory \<^verbatim>\<open>DISK\<close>, which holds the file \<^verbatim>\<open>FIRMWARE.CUR\<close>.\<close>

definition linux_stale_disk :: world where
  "linux_stale_disk =
     (posix_host ''Linux'' ''user''
        [(Path [''/'', ''media'', ''user''], [''STALE'', ''DISK'']),
         (Path [''/'', ''media'', ''user'', ''DISK''], [''FIRMWARE.CUR''])]
        []
        [Path [''/'', ''media'', ''user'', ''DISK'', ''FIRMWARE.CUR'']])
     \<lparr>is_dir := (\<lambda>p. if p = Path [''/'', ''media'', ''user'', ''STALE'']
                       then Inl ''[Errno 107] Transport endpoint is not connected: /media/user/STALE''
                       else Inr (p = Path [''/'', ''media'', ''user''] \<or>
                                 p = Path [''/'', ''media'', ''user'', ''DISK'']))\<rparr>"

text \<open>A Linux host on which the login name cannot be found.\<close>

definition linux_no_user :: world where
  "linux_no_user =
     (posix_host ''Linux'' ''user'' [] [] [])
     \<lparr>getuser := Inl ''getpwuid(): uid not found: 1000''\<rparr>"

text \<open>A Windows host with the one drive \<^verbatim>\<open>C\<close> (bit 2), labelled \<^verbatim>\<open>DATA\<close>, whose only
  file is \<^verbatim>\<open>OLDFIRMWARE.CUR.BAK\<close>.\<close>

definition windows_old_firmware :: world where
  "windows_old_firmware =
     windows_volumes 4 [(CHR ''C'', ''DATA'', [''OLDFIRMWARE.CUR.BAK''])]"

text \<open>A Windows host with the drives \<^verbatim>\<open>A\<close>, not ready, and \<^verbatim>\<open>C\<close>, labelled \<^verbatim>\<open>DATA\<close>,
  whose only file is \<^verbatim>\<open>README.TXT\<close> (bits 0 and 2).\<close>

definition windows_readme_only :: world where
  "windows_readme_only =
     windows_host 5
       [(''cmd /C vol A:'', Inl ''Command returned non-zero exit status 1.''),
        (''cmd /C vol C:'', Inr (vol_text CHR ''C'' ''DATA'')),
        (''cmd /C dir C:'', Inr (dir_text CHR ''C'' [''README.TXT'']))]"

section \<open>Facts about membership, paths and listings\<close>

text \<open>A string is never an element of a list of paths.\<close>

lemma py_in_str_paths: "py_in (PyStr a) (map PyPath ds) = False"
  by (induction ds) simp_all

lemma py_in_str_strs: "py_in (PyStr a) (map PyStr xs) = (a \<in> set xs)"
  by (induction xs) auto

lemma filter_raising_Inr:
  "filter_raising test xs = Inr ys \<Longrightarrow> ys = filter (\<lambda>x. test x = Inr True) xs"
proof (induction xs arbitrary: ys)
  case Nil
  then show ?case by simp
next
  case (Cons x xs)
  then show ?case by (auto split: sum.splits if_splits)
qed

lemma subdirs_member:
  assumes "subdirs w root = Inr ds" and "d \<in> set ds"
  shows "\<exists>names n. listdir w root = Inr names \<and> n \<in> set names \<and>
           d = Path (parts root @ [n]) \<and> is_dir w d = Inr True"
proof -
  from assms(1) obtain names where names: "listdir w root = Inr names"
    "filter_raising (is_dir w) (map (\<lambda>n. Path (parts root @ [n])) names) = Inr ds"
    by (auto simp: subdirs_def iterdir_def split: sum.splits)
  from filter_raising_Inr[OF names(2)] assms(2) names(1) show ?thesis
    by auto
qed

lemma child_absolute: "is_absolute root \<Longrightarrow> is_absolute (Path (parts root @ [n]))"
  by (cases root) (auto simp: is_absolute_def split: list.splits)

lemma subdirs_absolute:
  assumes "subdirs w root = Inr ds" and "d \<in> set ds" and "is_absolute root"
  shows "is_absolute d"
  using subdirs_member[OF assms(1,2)] child_absolute[OF assms(3)] by auto

lemma joinpath_absolute: "is_absolute d \<Longrightarrow> joinpath root d = d"
  by (simp add: joinpath_def)

lemma media_root_absolute: "is_absolute (media_root user)"
  by (auto simp: media_root_def joinpath_def is_absolute_def)

lemma volumes_root_absolute: "is_absolute volumes_root"
  by (simp add: volumes_root_def is_absolute_def)

section \<open>The loop over subdirectories\<close>

lemma scan_dirs_step:
  "scan_dirs w root (d # ds) s =
     (if has_file w (joinpath root d)
      then s\<lparr>upload_disk := PyPath (joinpath root d), target_file_found := True\<rparr>
      else scan_dirs w root ds s)"
  by (simp add: has_file_def py_in_str_strs split: sum.splits)

lemma scan_dirs_find:
  "scan_dirs w root ds s =
     (case find (\<lambda>d. has_file w (joinpath root d)) ds of
        None \<Rightarrow> s
      | Some d \<Rightarrow> s\<lparr>upload_disk := PyPath (joinpath root d), target_file_found := True\<rparr>)"
  by (induction ds) (simp_all add: scan_dirs_step del: scan_dirs.simps(2))

lemma find_absolute:
  "\<forall>d \<in> set ds. is_absolute d \<Longrightarrow>
   find (\<lambda>d. has_file w (joinpath root d)) ds = find (has_file w) ds"
  by (induction ds) (simp_all add: joinpath_absolute)

lemma find_Some_member: "find P ds = Some d \<Longrightarrow> d \<in> set ds"
  by (auto simp: find_Some_iff)

text \<open>The loop on the subdirectories of an absolute root selects the first one that
  contains the target filename.\<close>

lemma scan_subdirs:
  assumes "subdirs w root = Inr ds" and "is_absolute root"
  shows "scan_dirs w root ds s =
     (case find (has_file w) ds of
        None \<Rightarrow> s
      | Some d \<Rightarrow> s\<lparr>upload_disk := PyPath d, target_file_found := True\<rparr>)"
proof -
  have abs: "\<forall>d \<in> set ds. is_absolute d"
    using subdirs_absolute[OF assms(1) _ assms(2)] by blast
  have "\<And>d. find (has_file w) ds = Some d \<Longrightarrow> joinpath root d = d"
    using abs by (auto dest!: find_Some_member simp: joinpath_absolute)
  then show ?thesis
    by (simp add: scan_dirs_find find_absolute[OF abs] split: option.splits)
qed

section \<open>The hook on macOS and on Linux\<close>

lemma darwin_hook:
  assumes "current_OS w = ''Darwin''"
  shows "before_upload w env =
     Inr (case subdirs w volumes_root of
            Inl e \<Rightarrow> [print_error env e]
          | Inr ds \<Rightarrow>
              (case find (has_file w) ds of
                 None \<Rightarrow> [print_error env ''Autodetect Error'']
               | Some d \<Rightarrow> [Replace ''UPLOAD_PORT'' (path_str d), upload_disk_line (path_str d)]))"
proof (cases "subdirs w volumes_root")
  case (Inl e)
  then show ?thesis
    using assms by (simp add: before_upload_def try_body_def darwin_branch_def volumes_root_def)
next
  case (Inr ds)
  have "darwin_branch w initial = Inr (scan_dirs w volumes_root ds initial)"
    using Inr by (simp add: darwin_branch_def volumes_root_def py_in_str_paths)
  then show ?thesis
    using assms Inr
    by (simp add: before_upload_def try_body_def scan_subdirs[OF Inr volumes_root_absolute]
        finish_def initial_def upload_disk_line_def split: option.splits)
qed

lemma linux_hook:
  assumes "current_OS w = ''Linux''"
  shows "before_upload w env =
     Inr (case getuser w of
            Inl e \<Rightarrow> [print_error env e]
          | Inr user \<Rightarrow>
              (case subdirs w (media_root user) of
                 Inl e \<Rightarrow> [print_error env e]
               | Inr ds \<Rightarrow>
                   (case find (has_file w) ds of
                      None \<Rightarrow> [print_error env ''Autodetect Error'']
                    | Some d \<Rightarrow> [Replace ''UPLOAD_FLAGS'' ''-P$UPLOAD_PORT'',
                                 Replace ''UPLOAD_PORT'' (path_str d),
                                 upload_disk_line (path_str d)])))"
proof (cases "getuser w")
  case (Inl e)
  then show ?thesis
    using assms by (simp add: before_upload_def try_body_def linux_branch_def)
next
  case user: (Inr user)
  show ?thesis
  proof (cases "subdirs w (media_root user)")
    case (Inl e)
    then show ?thesis
      using assms user
      by (simp add: before_upload_def try_body_def linux_branch_def media_root_def)
  next
    case (Inr ds)
    let ?s1 = "scan_dirs w (media_root user) ds initial"
    have "linux_branch w initial =
            Inr (if target_file_found ?s1 \<or> target_drive_found ?s1
                 then ?s1\<lparr>effects := effects ?s1 @ [Replace ''UPLOAD_FLAGS'' ''-P$UPLOAD_PORT'']\<rparr>
                 else ?s1)"
      using Inr user by (simp add: linux_branch_def media_root_def py_in_str_paths Let_def)
    then show ?thesis
      using assms Inr user
      by (simp add: before_upload_def try_body_def scan_subdirs[OF Inr media_root_absolute]
          finish_def initial_def upload_disk_line_def split: option.splits)
  qed
qed

section \<open>The drive letters\<close>

lemma lowest_bit: "(bm AND 1 \<noteq> 0) = bit (bm::int) 0"
  by (simp add: and_one_eq bit_0 odd_iff_mod_2_eq_one)

lemma get_drives_eq:
  "get_drives bm ls = map (\<lambda>i. ls ! i) (filter (bit bm) [0..<length ls])"
proof (induction ls arbitrary: bm)
  case Nil
  show ?case by simp
next
  case (Cons l ls)
  have up: "[0..<length (l # ls)] = 0 # map Suc [0..<length ls]"
    by (simp add: upt_conv_Cons map_Suc_upt del: upt_Suc)
  have sh: "filter (bit bm) (map Suc [0..<length ls]) =
            map Suc (filter (bit (drop_bit 1 bm)) [0..<length ls])"
    by (simp add: filter_map comp_def bit_Suc drop_bit_Suc)
  show ?case
    unfolding up by (simp add: Cons sh lowest_bit comp_def del: upt_Suc)
qed

section \<open>Label matching on Linux and macOS\<close>

lemmas host_simps = posix_host_def subdirs_def filenames_of_def iterdir_def joinpath_def
  is_absolute_def media_root_def volumes_root_def name_def target_drive_def target_filename_def

lemmas hook_simps = before_upload_def try_body_def linux_branch_def darwin_branch_def
  initial_def finish_def path_str_def upload_disk_line_def

text \<open>
  Claim C1 says that on Linux a subdirectory of the media root whose name equals the
  target label is selected at once, with the upload flag set and no other subdirectory
  inspected. The test of line 85 looks for the string \<^verbatim>\<open>target_drive\<close> in a list of
  path objects and so is never true. The hook evaluated on the claim's own scenario:
  with \<^verbatim>\<open>/media/user\<close> holding \<^verbatim>\<open>REARM\<close> and \<^verbatim>\<open>OTHER\<close>, the upload port becomes
  \<^verbatim>\<open>/media/user/OTHER\<close> when \<^verbatim>\<open>OTHER\<close> holds the target file, and the hook reports
  \<^verbatim>\<open>Autodetect Error\<close> and writes nothing when neither directory holds it.
\<close>

theorem linux_label_directory_not_selected:
  "subdirs linux_rearm_other_file (media_root ''user'') =
     Inr [Path [''/'', ''media'', ''user'', ''REARM''], Path [''/'', ''media'', ''user'', ''OTHER'']]
   \<and> name (Path [''/'', ''media'', ''user'', ''REARM'']) = target_drive
   \<and> before_upload linux_rearm_other_file Map.empty =
       Inr [Replace ''UPLOAD_FLAGS'' ''-P$UPLOAD_PORT'',
            Replace ''UPLOAD_PORT'' ''/media/user/OTHER'',
            upload_disk_line ''/media/user/OTHER'']
   \<and> before_upload linux_rearm_other Map.empty =
       Inr [print_error Map.empty ''Autodetect Error'']"
proof -
  have a: "subdirs linux_rearm_other_file (media_root ''user'') =
     Inr [Path [''/'', ''media'', ''user'', ''REARM''], Path [''/'', ''media'', ''user'', ''OTHER'']]"
    by (simp add: linux_rearm_other_file_def host_simps)
  have b: "name (Path [''/'', ''media'', ''user'', ''REARM'']) = target_drive"
    by (simp add: host_simps)
  have c: "before_upload linux_rearm_other_file Map.empty =
       Inr [Replace ''UPLOAD_FLAGS'' ''-P$UPLOAD_PORT'',
            Replace ''UPLOAD_PORT'' ''/media/user/OTHER'',
            upload_disk_line ''/media/user/OTHER'']"
    by (simp add: linux_rearm_other_file_def host_simps hook_simps)
  have d: "before_upload linux_rearm_other Map.empty =
       Inr [print_error Map.empty ''Autodetect Error'']"
    by (simp add: linux_rearm_other_def host_simps hook_simps)
  from a b c d show ?thesis by blast
qed

text \<open>
  Claim C2 says that on macOS, when a subdirectory of \<^verbatim>\<open>/Volumes\<close> is named as the
  target label and no subdirectory contains the target filename, the hook succeeds with
  that subdirectory. The test of line 115 is the one of line 85 and is never true. The
  hook evaluated on such a host: \<^verbatim>\<open>/Volumes\<close> holds the empty directories
  \<^verbatim>\<open>Macintosh HD\<close> and \<^verbatim>\<open>REARM\<close>, and the hook reports \<^verbatim>\<open>Autodetect Error\<close> and writes
  nothing.
\<close>

theorem darwin_label_directory_not_selected:
  "subdirs darwin_rearm volumes_root =
     Inr [Path [''/'', ''Volumes'', ''Macintosh HD''], Path [''/'', ''Volumes'', ''REARM'']]
   \<and> name (Path [''/'', ''Volumes'', ''REARM'']) = target_drive
   \<and> \<not> has_file darwin_rearm (Path [''/'', ''Volumes'', ''Macintosh HD''])
   \<and> \<not> has_file darwin_rearm (Path [''/'', ''Volumes'', ''REARM''])
   \<and> before_upload darwin_rearm Map.empty = Inr [print_error Map.empty ''Autodetect Error'']"
proof -
  have a: "subdirs darwin_rearm volumes_root =
     Inr [Path [''/'', ''Volumes'', ''Macintosh HD''], Path [''/'', ''Volumes'', ''REARM'']]"
    by (simp add: darwin_rearm_def host_simps)
  have b: "name (Path [''/'', ''Volumes'', ''REARM'']) = target_drive"
    by (simp add: host_simps)
  have c: "\<not> has_file darwin_rearm (Path [''/'', ''Volumes'', ''Macintosh HD''])"
    by (simp add: darwin_rearm_def has_file_def host_simps)
  have d: "\<not> has_file darwin_rearm (Path [''/'', ''Volumes'', ''REARM''])"
    by (simp add: darwin_rearm_def has_file_def host_simps)
  have e: "before_upload darwin_rearm Map.empty = Inr [print_error Map.empty ''Autodetect Error'']"
    by (simp add: darwin_rearm_def host_simps hook_simps)
  from a b c d e show ?thesis by blast
qed

section \<open>The hook on Windows\<close>

lemma query_errors_append: "query_errors w (a @ b) = query_errors w a @ query_errors w b"
  by (induction a) simp_all

lemma scan_windows_step:
  "scan_windows w (d # ds) s =
     (if label_match w d
      then s\<lparr>upload_disk := PyPath (PureWindowsPath [d, CHR '':'']), target_drive_found := True\<rparr>
      else if file_match w d
      then s\<lparr>upload_disk := PyPath (PureWindowsPath [d, CHR '':'']), target_file_found := True\<rparr>
      else scan_windows w ds (s\<lparr>effects := effects s @ query_errors w [d]\<rparr>))"
  by (simp add: label_match_def file_match_def vol_def dir_def split: sum.splits)

lemma scan_windows_none:
  "\<forall>x \<in> set ds. \<not> label_match w x \<and> \<not> file_match w x \<Longrightarrow>
   scan_windows w ds s = s\<lparr>effects := effects s @ query_errors w ds\<rparr>"
proof (induction ds arbitrary: s)
  case Nil
  show ?case by simp
next
  case (Cons d ds)
  have "query_errors w (d # ds) = query_errors w [d] @ query_errors w ds"
    using query_errors_append[of w "[d]" ds] by simp
  with Cons show ?case
    by (simp add: scan_windows_step del: scan_windows.simps(2) query_errors.simps(2))
qed

lemma scan_windows_first:
  assumes "\<forall>x \<in> set pre. \<not> label_match w x \<and> \<not> file_match w x"
    and "label_match w d \<or> file_match w d"
  shows "scan_windows w (pre @ d # post) s =
     s\<lparr>upload_disk := PyPath (PureWindowsPath [d, CHR '':'']),
       target_file_found := target_file_found s \<or> \<not> label_match w d,
       target_drive_found := target_drive_found s \<or> label_match w d,
       effects := effects s @ query_errors w pre\<rparr>"
  using assms
proof (induction pre arbitrary: s)
  case Nil
  then show ?case by (auto simp add: scan_windows_step simp del: scan_windows.simps(2))
next
  case (Cons x pre)
  have "query_errors w (x # pre) = query_errors w [x] @ query_errors w pre"
    using query_errors_append[of w "[x]" pre] by simp
  with Cons show ?case
    by (simp add: scan_windows_step del: scan_windows.simps(2) query_errors.simps(2))
qed

lemma windows_hook:
  assumes "current_OS w = ''Windows''"
  shows "before_upload w env =
           Inr (effects (finish env
                  (scan_windows w (get_drives (GetLogicalDrives w) ascii_uppercase) initial)))"
  using assms by (simp add: before_upload_def try_body_def)

lemma windows_hook_first:
  assumes "current_OS w = ''Windows''"
    and "get_drives (GetLogicalDrives w) ascii_uppercase = pre @ c # post"
    and "\<forall>x \<in> set pre. \<not> label_match w x \<and> \<not> file_match w x"
    and "label_match w c \<or> file_match w c"
  shows "before_upload w env =
           Inr (query_errors w pre @
                [Replace ''UPLOAD_PORT'' [c, CHR '':''], upload_disk_line [c, CHR '':'']])"
  unfolding windows_hook[OF assms(1)] assms(2) scan_windows_first[OF assms(3,4)] using assms(4)
  by (auto simp add: finish_def initial_def upload_disk_line_def PureWindowsPath_def
      path_str_def)

lemma windows_hook_none:
  assumes "current_OS w = ''Windows''"
    and "\<forall>d \<in> set (get_drives (GetLogicalDrives w) ascii_uppercase).
           \<not> label_match w d \<and> \<not> file_match w d"
  shows "before_upload w env =
           Inr (query_errors w (get_drives (GetLogicalDrives w) ascii_uppercase)
                @ [print_error env ''Autodetect Error''])"
  unfolding windows_hook[OF assms(1)] scan_windows_none[OF assms(2)]
  by (simp add: finish_def initial_def)

section \<open>The scan order on Windows\<close>

lemma get_drives_subset: "set (get_drives bm ls) \<subseteq> set ls"
  by (induction ls arbitrary: bm) auto

lemma sorted_wrt_get_drives: "sorted_wrt R ls \<Longrightarrow> sorted_wrt R (get_drives bm ls)"
proof (induction ls arbitrary: bm)
  case Nil
  show ?case by simp
next
  case (Cons l ls)
  then show ?case using get_drives_subset[of "drop_bit 1 bm" ls] by auto
qed

lemma ascii_uppercase_sorted:
  "sorted_wrt (\<lambda>a b. (of_char a :: nat) < of_char b) ascii_uppercase"
  by (simp add: ascii_uppercase_def)

lemmas windows_simps = windows_host_def label_match_def file_match_def vol_def dir_def
  target_drive_def target_filename_def ascii_uppercase_def

text \<open>
  Claim C3, Windows. The drives are scanned in alphabetical order of their letters, and
  the first drive that matches, by label or by filename, is the result, whatever the
  drives after it hold: a drive \<^verbatim>\<open>C\<close> that matches by filename wins over a later
  drive \<^verbatim>\<open>D\<close> that matches by label. Within one drive the label is checked first: a
  drive whose label matches is recorded as a label match (\<^verbatim>\<open>target_drive_found\<close>)
  and never as a file match.
\<close>

theorem windows_first_match_in_letter_order:
  assumes "current_OS w = ''Windows''"
    and "get_drives (GetLogicalDrives w) ascii_uppercase = pre @ c # post"
    and "\<forall>x \<in> set pre. \<not> label_match w x \<and> \<not> file_match w x"
    and "label_match w c \<or> file_match w c"
  shows "sorted_wrt (\<lambda>a b. (of_char a :: nat) < of_char b) (pre @ c # post)
     \<and> locals (scan_windows w (pre @ c # post) initial) =
         (PyPath (PureWindowsPath [c, CHR '':'']), \<not> label_match w c, label_match w c)
     \<and> before_upload w env =
         Inr (query_errors w pre @
              [Replace ''UPLOAD_PORT'' [c, CHR '':''], upload_disk_line [c, CHR '':'']])"
proof -
  have a: "sorted_wrt (\<lambda>a b. (of_char a :: nat) < of_char b) (pre @ c # post)"
    using sorted_wrt_get_drives[OF ascii_uppercase_sorted, of "GetLogicalDrives w"] assms(2)
    by simp
  note sc = scan_windows_first[OF assms(3,4), of post initial]
  have b: "locals (scan_windows w (pre @ c # post) initial) =
         (PyPath (PureWindowsPath [c, CHR '':'']), \<not> label_match w c, label_match w c)"
    unfolding sc locals_def by (simp add: initial_def)
  from a b windows_hook_first[OF assms] show ?thesis by blast
qed

theorem windows_first_match_in_letter_order_witness:
  "get_drives (GetLogicalDrives windows_c_file_d_label) ascii_uppercase = ''ACD''
   \<and> \<not> label_match windows_c_file_d_label CHR ''A'' \<and> \<not> file_match windows_c_file_d_label CHR ''A''
   \<and> \<not> label_match windows_c_file_d_label CHR ''C'' \<and> file_match windows_c_file_d_label CHR ''C''
   \<and> label_match windows_c_file_d_label CHR ''D''
   \<and> locals (scan_windows windows_c_file_d_label ''ACD'' initial) =
        (PyPath (PureWindowsPath ''C:''), True, False)
   \<and> before_upload windows_c_file_d_label Map.empty =
        Inr [Print ''error:Command returned non-zero exit status 1.'',
             Replace ''UPLOAD_PORT'' ''C:'', upload_disk_line ''C:'']"
proof -
  let ?w = windows_c_file_d_label
  have os: "current_OS ?w = ''Windows''"
    by (simp add: windows_c_file_d_label_def windows_host_def)
  have dr: "get_drives (GetLogicalDrives ?w) ascii_uppercase = ''A'' @ CHR ''C'' # ''D''"
    by (simp add: windows_c_file_d_label_def windows_simps)
  have a: "\<not> label_match ?w CHR ''A'' \<and> \<not> file_match ?w CHR ''A''"
    by (simp add: windows_c_file_d_label_def windows_simps)
  have cl: "\<not> label_match ?w CHR ''C''"
    by (simp add: windows_c_file_d_label_def windows_simps)
  have cf: "file_match ?w CHR ''C''"
    by (simp add: windows_c_file_d_label_def windows_simps)
  have d: "label_match ?w CHR ''D''"
    by (simp add: windows_c_file_d_label_def windows_simps)
  have pre: "\<forall>x \<in> set ''A''. \<not> label_match ?w x \<and> \<not> file_match ?w x"
    using a by simp
  have qe: "query_errors ?w ''A'' = [Print ''error:Command returned non-zero exit status 1.'']"
    by (simp add: windows_c_file_d_label_def windows_simps)
  from windows_first_match_in_letter_order[OF os dr pre, of Map.empty] cf cl qe dr a d
  show ?thesis by simp
qed

section \<open>File matching on macOS\<close>

lemma find_first: "\<forall>x \<in> set pre. \<not> P x \<Longrightarrow> P d \<Longrightarrow> find P (pre @ d # post) = Some d"
  by (induction pre) simp_all

text \<open>
  Claim C4 says that on macOS, when two or more subdirectories of \<^verbatim>\<open>/Volumes\<close> contain
  the target filename, the last of them in enumeration order is selected. The loop of
  lines 118 to 128 leaves at its first file match (\<^verbatim>\<open>break\<close>, line 128): with
  \<^verbatim>\<open>/Volumes\<close> holding \<^verbatim>\<open>A\<close> and \<^verbatim>\<open>B\<close>, each with the target file, the upload port
  is \<^verbatim>\<open>/Volumes/A\<close> and \<^verbatim>\<open>/Volumes/B\<close> is never written.
\<close>

theorem darwin_last_file_match_counterexample:
  "subdirs darwin_two_copies volumes_root =
     Inr [Path [''/'', ''Volumes'', ''A''], Path [''/'', ''Volumes'', ''B'']]
   \<and> has_file darwin_two_copies (Path [''/'', ''Volumes'', ''A''])
   \<and> has_file darwin_two_copies (Path [''/'', ''Volumes'', ''B''])
   \<and> path_str (Path [''/'', ''Volumes'', ''B'']) = ''/Volumes/B''
   \<and> before_upload darwin_two_copies Map.empty \<noteq>
       Inr [Replace ''UPLOAD_PORT'' ''/Volumes/B'', upload_disk_line ''/Volumes/B'']
   \<and> before_upload darwin_two_copies Map.empty =
       Inr [Replace ''UPLOAD_PORT'' ''/Volumes/A'', upload_disk_line ''/Volumes/A'']"
proof -
  have a: "subdirs darwin_two_copies volumes_root =
     Inr [Path [''/'', ''Volumes'', ''A''], Path [''/'', ''Volumes'', ''B'']]"
    by (simp add: darwin_two_copies_def host_simps)
  have b: "has_file darwin_two_copies (Path [''/'', ''Volumes'', ''A''])"
    by (simp add: darwin_two_copies_def has_file_def host_simps)
  have c: "has_file darwin_two_copies (Path [''/'', ''Volumes'', ''B''])"
    by (simp add: darwin_two_copies_def has_file_def host_simps)
  have d: "path_str (Path [''/'', ''Volumes'', ''B'']) = ''/Volumes/B''"
    by (simp add: path_str_def)
  have e: "before_upload darwin_two_copies Map.empty =
       Inr [Replace ''UPLOAD_PORT'' ''/Volumes/A'', upload_disk_line ''/Volumes/A'']"
    by (simp add: darwin_two_copies_def host_simps hook_simps)
  have f: "before_upload darwin_two_copies Map.empty \<noteq>
       Inr [Replace ''UPLOAD_PORT'' ''/Volumes/B'', upload_disk_line ''/Volumes/B'']"
    unfolding e by simp
  from a b c d e f show ?thesis by blast
qed

text \<open>
  Claim C4 as amended: on macOS, when subdirectories of \<^verbatim>\<open>/Volumes\<close> contain the target
  filename, the selected path is that of the first of them in enumeration order,
  whatever the subdirectories after it contain.
\<close>

theorem darwin_first_file_match_wins:
  assumes "current_OS w = ''Darwin''"
    and "subdirs w volumes_root = Inr (pre @ d # post)"
    and "\<forall>x \<in> set pre. \<not> has_file w x"
    and "has_file w d"
  shows "before_upload w env =
           Inr [Replace ''UPLOAD_PORT'' (path_str d), upload_disk_line (path_str d)]"
  by (simp add: darwin_hook[OF assms(1)] assms(2) find_first[OF assms(3,4)])

theorem darwin_first_file_match_wins_witness:
  "has_file darwin_two_copies (Path [''/'', ''Volumes'', ''A''])
   \<and> has_file darwin_two_copies (Path [''/'', ''Volumes'', ''B''])
   \<and> before_upload darwin_two_copies Map.empty =
       Inr [Replace ''UPLOAD_PORT'' (path_str (Path [''/'', ''Volumes'', ''A''])),
            upload_disk_line (path_str (Path [''/'', ''Volumes'', ''A'']))]"
proof -
  let ?w = darwin_two_copies
  have os: "current_OS ?w = ''Darwin''"
    by (simp add: darwin_two_copies_def posix_host_def)
  have sd: "subdirs ?w volumes_root =
     Inr ([] @ Path [''/'', ''Volumes'', ''A''] # [Path [''/'', ''Volumes'', ''B'']])"
    by (simp add: darwin_two_copies_def host_simps)
  have pre: "\<forall>x \<in> set []. \<not> has_file ?w x" by simp
  have a: "has_file ?w (Path [''/'', ''Volumes'', ''A''])"
    by (simp add: darwin_two_copies_def has_file_def host_simps)
  have b: "has_file ?w (Path [''/'', ''Volumes'', ''B''])"
    by (simp add: darwin_two_copies_def has_file_def host_simps)
  from darwin_first_file_match_wins[OF os sd pre a, of Map.empty] a b show ?thesis by simp
qed

section \<open>A file match after a directory named as the label\<close>

lemma child_path_str:
  "path_str (Path (parts volumes_root @ [n])) = ''/Volumes/'' @ n"
  by (simp add: volumes_root_def path_str_def)

text \<open>
  Claim C5 says that on macOS, when a subdirectory named as the target label is found
  and a subdirectory containing the target filename occurs later in the scan, the
  result is the later, file-matching subdirectory and not the one named as the label.
  The loop takes the first subdirectory that contains the target filename: with
  \<^verbatim>\<open>/Volumes\<close> holding \<^verbatim>\<open>REARM\<close> and then \<^verbatim>\<open>DISK\<close>, each with the target file, the
  upload port is \<^verbatim>\<open>/Volumes/REARM\<close>, the directory named as the label.
\<close>

theorem darwin_later_file_match_counterexample:
  "subdirs darwin_rearm_disk_copies volumes_root =
     Inr [Path [''/'', ''Volumes'', ''REARM''], Path [''/'', ''Volumes'', ''DISK'']]
   \<and> name (Path [''/'', ''Volumes'', ''REARM'']) = target_drive
   \<and> has_file darwin_rearm_disk_copies (Path [''/'', ''Volumes'', ''DISK''])
   \<and> path_str (Path [''/'', ''Volumes'', ''DISK'']) = ''/Volumes/DISK''
   \<and> before_upload darwin_rearm_disk_copies Map.empty \<noteq>
       Inr [Replace ''UPLOAD_PORT'' ''/Volumes/DISK'', upload_disk_line ''/Volumes/DISK'']
   \<and> before_upload darwin_rearm_disk_copies Map.empty =
       Inr [Replace ''UPLOAD_PORT'' ''/Volumes/REARM'', upload_disk_line ''/Volumes/REARM'']"
proof -
  let ?w = darwin_rearm_disk_copies
  have a: "subdirs ?w volumes_root =
     Inr [Path [''/'', ''Volumes'', ''REARM''], Path [''/'', ''Volumes'', ''DISK'']]"
    by (simp add: darwin_rearm_disk_copies_def host_simps)
  have b: "name (Path [''/'', ''Volumes'', ''REARM'']) = target_drive"
    by (simp add: host_simps)
  have c: "has_file ?w (Path [''/'', ''Volumes'', ''DISK''])"
    by (simp add: darwin_rearm_disk_copies_def has_file_def host_simps)
  have d: "path_str (Path [''/'', ''Volumes'', ''DISK'']) = ''/Volumes/DISK''"
    by (simp add: path_str_def)
  have e: "before_upload ?w Map.empty =
       Inr [Replace ''UPLOAD_PORT'' ''/Volumes/REARM'', upload_disk_line ''/Volumes/REARM'']"
    by (simp add: darwin_rearm_disk_copies_def host_simps hook_simps)
  have f: "before_upload ?w Map.empty \<noteq>
       Inr [Replace ''UPLOAD_PORT'' ''/Volumes/DISK'', upload_disk_line ''/Volumes/DISK'']"
    unfolding e by simp
  from a b c d e f show ?thesis by blast
qed

text \<open>
  Claim C5 as amended: on macOS, when a subdirectory named as the target label is found,
  a subdirectory containing the target filename occurs later in the scan, and no
  subdirectory before that one contains the target filename, the result is the path of
  the later subdirectory, and it is not the path of the subdirectory named as the label.
\<close>

theorem darwin_file_match_after_label_directory:
  assumes "current_OS w = ''Darwin''"
    and "subdirs w volumes_root = Inr ds"
    and "i < j" and "j < length ds"
    and "name (ds ! i) = target_drive"
    and "has_file w (ds ! j)"
    and "\<forall>m<j. \<not> has_file w (ds ! m)"
  shows "before_upload w env =
           Inr [Replace ''UPLOAD_PORT'' (path_str (ds ! j)), upload_disk_line (path_str (ds ! j))]
       \<and> path_str (ds ! j) \<noteq> path_str (ds ! i)"
proof -
  have f: "find (has_file w) ds = Some (ds ! j)"
    unfolding find_Some_iff using assms(4,6,7) by blast
  have a: "before_upload w env =
           Inr [Replace ''UPLOAD_PORT'' (path_str (ds ! j)), upload_disk_line (path_str (ds ! j))]"
    by (simp add: darwin_hook[OF assms(1)] assms(2) f)
  have "\<not> has_file w (ds ! i)"
    using assms(3,7) by blast
  with assms(6) have ne: "ds ! j \<noteq> ds ! i"
    by metis
  have mi: "ds ! i \<in> set ds" and mj: "ds ! j \<in> set ds"
    using assms(3,4) by simp_all
  from subdirs_member[OF assms(2) mi] obtain ni where ni: "ds ! i = Path (parts volumes_root @ [ni])"
    by blast
  from subdirs_member[OF assms(2) mj] obtain nj where nj: "ds ! j = Path (parts volumes_root @ [nj])"
    by blast
  from ne ni nj have "ni \<noteq> nj" by auto
  then have b: "path_str (ds ! j) \<noteq> path_str (ds ! i)"
    unfolding ni nj child_path_str by simp
  from a b show ?thesis by blast
qed

theorem darwin_file_match_after_label_directory_witness:
  "subdirs darwin_rearm_disk volumes_root =
     Inr [Path [''/'', ''Volumes'', ''REARM''], Path [''/'', ''Volumes'', ''DISK'']]
   \<and> name (Path [''/'', ''Volumes'', ''REARM'']) = target_drive
   \<and> \<not> has_file darwin_rearm_disk (Path [''/'', ''Volumes'', ''REARM''])
   \<and> has_file darwin_rearm_disk (Path [''/'', ''Volumes'', ''DISK''])
   \<and> before_upload darwin_rearm_disk Map.empty =
       Inr [Replace ''UPLOAD_PORT'' (path_str (Path [''/'', ''Volumes'', ''DISK''])),
            upload_disk_line (path_str (Path [''/'', ''Volumes'', ''DISK'']))]
   \<and> path_str (Path [''/'', ''Volumes'', ''DISK'']) \<noteq> path_str (Path [''/'', ''Volumes'', ''REARM''])"
proof -
  let ?w = darwin_rearm_disk
  let ?ds = "[Path [''/'', ''Volumes'', ''REARM''], Path [''/'', ''Volumes'', ''DISK'']]"
  have os: "current_OS ?w = ''Darwin''"
    by (simp add: darwin_rearm_disk_def posix_host_def)
  have sd: "subdirs ?w volumes_root = Inr ?ds"
    by (simp add: darwin_rearm_disk_def host_simps)
  have nm: "name (?ds ! 0) = target_drive"
    by (simp add: host_simps)
  have nf: "\<not> has_file ?w (Path [''/'', ''Volumes'', ''REARM''])"
    by (simp add: darwin_rearm_disk_def has_file_def host_simps)
  have hf: "has_file ?w (?ds ! 1)"
    by (simp add: darwin_rearm_disk_def has_file_def host_simps)
  have none: "\<forall>m<1. \<not> has_file ?w (?ds ! m)"
    using nf by simp
  have ij: "(0::nat) < 1" and jl: "1 < length ?ds"
    by simp_all
  from darwin_file_match_after_label_directory[OF os sd ij jl nm hf none, of Map.empty]
    sd nm nf hf
  show ?thesis by simp
qed

section \<open>Failure without a match\<close>

lemma query_errors_prints: "\<forall>e \<in> set (query_errors w ds). \<not> is_Replace e"
  by (induction ds) (auto split: sum.splits)

lemma print_error_not_Replace: "\<not> is_Replace (print_error env e)"
  by (simp add: print_error_def)

lemma apply_effects_prints: "\<forall>e \<in> set es. \<not> is_Replace e \<Longrightarrow> apply_effects es env = env"
proof (induction es)
  case Nil
  show ?case by simp
next
  case (Cons x es)
  then show ?case by (cases x) simp_all
qed

lemma find_none: "\<forall>d \<in> set ds. \<not> P d \<Longrightarrow> find P ds = None"
  by (simp add: find_None_iff)

lemma other_hook:
  assumes "current_OS w \<noteq> ''Windows''" and "current_OS w \<noteq> ''Linux''"
    and "current_OS w \<noteq> ''Darwin''"
  shows "before_upload w env = Inr [print_error env ''Autodetect Error'']"
  using assms by (simp add: before_upload_def try_body_def finish_def initial_def)

text \<open>
  Claim C6 says that the hook fails and writes nothing whenever no candidate's label
  equals the target label and no candidate contains the target filename. On Windows
  the loop looks for the label and the filename as substrings of the output of \<^verbatim>\<open>vol\<close>
  and of \<^verbatim>\<open>dir\<close>: a drive \<^verbatim>\<open>C\<close> labelled \<^verbatim>\<open>DATA\<close> whose only file is
  \<^verbatim>\<open>OLDFIRMWARE.CUR.BAK\<close> becomes the upload port.
\<close>

theorem windows_substring_match_counterexample:
  "windows_old_firmware = windows_volumes 4 [(CHR ''C'', ''DATA'', [''OLDFIRMWARE.CUR.BAK''])]
   \<and> get_drives (GetLogicalDrives windows_old_firmware) ascii_uppercase = ''C''
   \<and> ''DATA'' \<noteq> target_drive
   \<and> target_filename \<notin> set [''OLDFIRMWARE.CUR.BAK'']
   \<and> before_upload windows_old_firmware Map.empty =
       Inr [Replace ''UPLOAD_PORT'' ''C:'', upload_disk_line ''C:'']"
proof -
  have a: "get_drives (GetLogicalDrives windows_old_firmware) ascii_uppercase = ''C''"
    by (simp add: windows_old_firmware_def windows_volumes_def windows_simps)
  have b: "''DATA'' \<noteq> target_drive"
    by (simp add: target_drive_def)
  have c: "target_filename \<notin> set [''OLDFIRMWARE.CUR.BAK'']"
    by (simp add: target_filename_def)
  have d: "before_upload windows_old_firmware Map.empty =
       Inr [Replace ''UPLOAD_PORT'' ''C:'', upload_disk_line ''C:'']"
    by (simp add: windows_old_firmware_def windows_volumes_def vol_text_def dir_text_def
        windows_simps hook_simps PureWindowsPath_def)
  from a b c d windows_old_firmware_def show ?thesis by blast
qed

text \<open>
  Claim C6 as amended: on every operating system, when no candidate matches by the tests
  of the hook (on Windows no drive's \<^verbatim>\<open>vol\<close> output contains the target label and no
  drive's \<^verbatim>\<open>dir\<close> output contains the target filename; on Linux and on macOS no
  subdirectory is named as the target label and none contains a regular file named as
  the target filename), the hook fails: it returns after printing the
  \<^verbatim>\<open>Autodetect Error\<close> diagnostic (on Windows after the \<^verbatim>\<open>error:\<close> lines of the drives
  that did not answer), it calls \<^verbatim>\<open>env.Replace\<close> for no key, neither \<^verbatim>\<open>UPLOAD_PORT\<close>
  nor \<^verbatim>\<open>UPLOAD_FLAGS\<close>, and the build configuration is unchanged.
\<close>

theorem no_match_fails_without_writes:
  assumes "no_candidate_matches w"
  shows "\<exists>es. before_upload w env = Inr es
       \<and> es = (if current_OS w = ''Windows''
               then query_errors w (get_drives (GetLogicalDrives w) ascii_uppercase) else [])
              @ [print_error env ''Autodetect Error'']
       \<and> (\<forall>e \<in> set es. \<not> is_Replace e)
       \<and> apply_effects es env = env"
proof -
  let ?es = "(if current_OS w = ''Windows''
              then query_errors w (get_drives (GetLogicalDrives w) ascii_uppercase) else [])
             @ [print_error env ''Autodetect Error'']"
  have eq: "before_upload w env = Inr ?es"
  proof -
    consider (win) "current_OS w = ''Windows''" | (lin) "current_OS w = ''Linux''"
      | (mac) "current_OS w = ''Darwin''"
      | (other) "current_OS w \<noteq> ''Windows''" "current_OS w \<noteq> ''Linux''"
          "current_OS w \<noteq> ''Darwin''"
      by blast
    then show ?thesis
    proof cases
      case win
      with assms have "\<forall>d \<in> set (get_drives (GetLogicalDrives w) ascii_uppercase).
           \<not> label_match w d \<and> \<not> file_match w d"
        by (simp add: no_candidate_matches_def)
      from windows_hook_none[OF win this] win show ?thesis by simp
    next
      case lin
      with assms obtain user ds where ds: "getuser w = Inr user"
        "subdirs w (media_root user) = Inr ds" "\<forall>d \<in> set ds. \<not> has_file w d"
        by (auto simp: no_candidate_matches_def split: sum.splits)
      show ?thesis
        using lin by (simp add: linux_hook[OF lin] ds(1,2) find_none[OF ds(3)])
    next
      case mac
      with assms obtain ds where ds: "subdirs w volumes_root = Inr ds"
        "\<forall>d \<in> set ds. \<not> has_file w d"
        by (auto simp: no_candidate_matches_def split: sum.splits)
      show ?thesis
        using mac by (simp add: darwin_hook[OF mac] ds(1) find_none[OF ds(2)])
    next
      case other
      then show ?thesis by (simp add: other_hook)
    qed
  qed
  have nr: "\<forall>e \<in> set ?es. \<not> is_Replace e"
    using query_errors_prints[of w] print_error_not_Replace[of env]
    by auto
  from eq nr apply_effects_prints[OF nr] show ?thesis by blast
qed

theorem no_match_fails_without_writes_witness:
  "no_candidate_matches linux_no_match
   \<and> before_upload linux_no_match Map.empty = Inr [print_error Map.empty ''Autodetect Error'']
   \<and> apply_effects [print_error Map.empty ''Autodetect Error''] Map.empty = Map.empty
   \<and> no_candidate_matches windows_readme_only
   \<and> before_upload windows_readme_only Map.empty =
       Inr [Print ''error:Command returned non-zero exit status 1.'',
            print_error Map.empty ''Autodetect Error'']"
proof -
  have h: "no_candidate_matches linux_no_match"
    by (simp add: no_candidate_matches_def linux_no_match_def has_file_def host_simps)
  have os: "current_OS linux_no_match \<noteq> ''Windows''"
    by (simp add: linux_no_match_def posix_host_def)
  from no_match_fails_without_writes[OF h, of Map.empty] os
  obtain es where es: "before_upload linux_no_match Map.empty = Inr es"
    "es = [print_error Map.empty ''Autodetect Error'']" "apply_effects es Map.empty = Map.empty"
    by auto
  let ?v = windows_readme_only
  have vos: "current_OS ?v = ''Windows''"
    by (simp add: windows_readme_only_def windows_host_def)
  have dr: "get_drives (GetLogicalDrives ?v) ascii_uppercase = ''AC''"
    by (simp add: windows_readme_only_def windows_simps)
  have k: "no_candidate_matches ?v"
    unfolding no_candidate_matches_def dr
    by (simp add: windows_readme_only_def vol_text_def dir_text_def windows_simps)
  have qe: "query_errors ?v ''AC'' = [Print ''error:Command returned non-zero exit status 1.'']"
    by (simp add: windows_readme_only_def vol_text_def dir_text_def windows_simps)
  from no_match_fails_without_writes[OF k, of Map.empty] vos dr qe
  have v: "before_upload ?v Map.empty =
       Inr [Print ''error:Command returned non-zero exit status 1.'',
            print_error Map.empty ''Autodetect Error'']"
    by auto
  from h es k v show ?thesis by blast
qed

section \<open>The upload flags on Linux\<close>

lemma scan_dirs_effects: "effects (scan_dirs w root ds s) = effects s"
  by (simp add: scan_dirs_find split: option.splits)

text \<open>
  Claim C7, Linux: \<^verbatim>\<open>UPLOAD_FLAGS\<close> is set to \<^verbatim>\<open>-P$UPLOAD_PORT\<close> if and only if the
  resolution succeeds, that is, if and only if \<^verbatim>\<open>UPLOAD_PORT\<close> is written; and after
  the Linux branch it is set exactly when one of the flags \<^verbatim>\<open>target_file_found\<close> and
  \<^verbatim>\<open>target_drive_found\<close> is raised.
\<close>

theorem linux_upload_flags_iff_success:
  assumes "current_OS w = ''Linux''"
  shows "(\<exists>es. before_upload w env = Inr es \<and>
            ((Replace ''UPLOAD_FLAGS'' ''-P$UPLOAD_PORT'' \<in> set es)
               = (\<exists>p. Replace ''UPLOAD_PORT'' p \<in> set es)))
       \<and> (\<forall>s. linux_branch w initial = Inr s \<longrightarrow>
            (Replace ''UPLOAD_FLAGS'' ''-P$UPLOAD_PORT'' \<in> set (effects s))
              = (target_file_found s \<or> target_drive_found s))"
proof -
  have a: "\<exists>es. before_upload w env = Inr es \<and>
            ((Replace ''UPLOAD_FLAGS'' ''-P$UPLOAD_PORT'' \<in> set es)
               = (\<exists>p. Replace ''UPLOAD_PORT'' p \<in> set es))"
    by (auto simp add: linux_hook[OF assms] print_error_def upload_disk_line_def
        split: sum.splits option.splits)
  have b: "(Replace ''UPLOAD_FLAGS'' ''-P$UPLOAD_PORT'' \<in> set (effects s))
              = (target_file_found s \<or> target_drive_found s)"
    if s: "linux_branch w initial = Inr s" for s
  proof -
    have e0: "effects initial = []" by (simp add: initial_def)
    from s show ?thesis
      by (auto simp add: linux_branch_def Let_def py_in_str_paths scan_dirs_effects e0
          split: sum.splits if_splits)
  qed
  from a b show ?thesis by blast
qed

theorem linux_upload_flags_iff_success_witness:
  "before_upload linux_other2_file Map.empty =
     Inr [Replace ''UPLOAD_FLAGS'' ''-P$UPLOAD_PORT'',
          Replace ''UPLOAD_PORT'' ''/media/user/OTHER2'', upload_disk_line ''/media/user/OTHER2'']
   \<and> (\<exists>s. linux_branch linux_other2_file initial = Inr s \<and> target_file_found s
          \<and> Replace ''UPLOAD_FLAGS'' ''-P$UPLOAD_PORT'' \<in> set (effects s))"
proof -
  let ?w = linux_other2_file
  have os: "current_OS ?w = ''Linux''"
    by (simp add: linux_other2_file_def posix_host_def)
  have port: "before_upload ?w Map.empty =
     Inr [Replace ''UPLOAD_FLAGS'' ''-P$UPLOAD_PORT'',
          Replace ''UPLOAD_PORT'' ''/media/user/OTHER2'', upload_disk_line ''/media/user/OTHER2'']"
    by (simp add: linux_other2_file_def host_simps hook_simps)
  have br: "linux_branch ?w initial =
      Inr \<lparr>upload_disk = PyPath (Path [''/'', ''media'', ''user'', ''OTHER2'']),
           target_file_found = True, target_drive_found = False,
           effects = [Replace ''UPLOAD_FLAGS'' ''-P$UPLOAD_PORT'']\<rparr>"
    by (simp add: linux_other2_file_def host_simps hook_simps)
  from linux_upload_flags_iff_success[OF os, of Map.empty] port br show ?thesis
    by auto
qed

section \<open>Errors of single candidates\<close>

lemma can_query_match: "drive_matches w d \<Longrightarrow> can_query w d"
  by (auto simp: drive_matches_def label_match_def file_match_def can_query_def
      split: sum.splits)

lemma has_file_can_list: "has_file w d \<Longrightarrow> can_list w d"
  by (auto simp: has_file_def can_list_def split: sum.splits)

lemma find_filter: "(\<And>x. P x \<Longrightarrow> Q x) \<Longrightarrow> find P (filter Q xs) = find P xs"
  by (induction xs) auto

lemma windows_hook_find:
  assumes "current_OS w = ''Windows''"
  shows "before_upload w env =
     Inr (query_errors w (takeWhile (\<lambda>d. \<not> drive_matches w d)
                            (get_drives (GetLogicalDrives w) ascii_uppercase))
          @ (case find (drive_matches w) (get_drives (GetLogicalDrives w) ascii_uppercase) of
               None \<Rightarrow> [print_error env ''Autodetect Error'']
             | Some d \<Rightarrow> [Replace ''UPLOAD_PORT'' [d, CHR '':''],
                          upload_disk_line [d, CHR '':'']]))"
proof -
  let ?ds = "get_drives (GetLogicalDrives w) ascii_uppercase"
  show ?thesis
  proof (cases "\<exists>d \<in> set ?ds. drive_matches w d")
    case True
    from split_list_first_prop[OF True]
    obtain pre c post where sp: "?ds = pre @ c # post" "drive_matches w c"
      "\<forall>x \<in> set pre. \<not> drive_matches w x"
      by blast
    have pre: "\<forall>x \<in> set pre. \<not> label_match w x \<and> \<not> file_match w x"
      using sp(3) by (simp add: drive_matches_def)
    have c: "label_match w c \<or> file_match w c"
      using sp(2) by (simp add: drive_matches_def)
    have tw: "takeWhile (\<lambda>d. \<not> drive_matches w d) (pre @ c # post) = pre"
      using sp(2,3) by (simp add: takeWhile_append2)
    have fd: "find (drive_matches w) (pre @ c # post) = Some c"
      using sp(2,3) by (simp add: find_first)
    show ?thesis
      unfolding windows_hook_first[OF assms sp(1) pre c] sp(1) tw fd by simp
  next
    case False
    then have none: "\<forall>d \<in> set ?ds. \<not> label_match w d \<and> \<not> file_match w d"
      by (simp add: drive_matches_def)
    have tw: "takeWhile (\<lambda>d. \<not> drive_matches w d) ?ds = ?ds"
      using False by (simp add: takeWhile_eq_all_conv)
    have fd: "find (drive_matches w) ?ds = None"
      using False by (simp add: find_None_iff)
    show ?thesis
      unfolding windows_hook_none[OF assms none] tw fd by simp
  qed
qed

text \<open>
  Claim C8 says that on every operating system an error of the enumeration or query of
  one candidate only removes that candidate and never ends the resolution. The test
  \<^verbatim>\<open>x.is_dir()\<close> of lines 84 and 114 is outside the handlers of the loop: on Linux,
  with \<^verbatim>\<open>/media/user\<close> holding a mount point \<^verbatim>\<open>STALE\<close> whose \<^verbatim>\<open>stat\<close> fails and a
  directory \<^verbatim>\<open>DISK\<close> with the target file, the exception of \<^verbatim>\<open>is_dir\<close> reaches line 139
  and the hook ends with the diagnostic, without looking at \<^verbatim>\<open>DISK\<close>.
\<close>

theorem candidate_stat_error_counterexample:
  "getuser linux_stale_disk = Inr ''user''
   \<and> listdir linux_stale_disk (media_root ''user'') = Inr [''STALE'', ''DISK'']
   \<and> is_dir linux_stale_disk (Path [''/'', ''media'', ''user'', ''STALE'']) =
       Inl ''[Errno 107] Transport endpoint is not connected: /media/user/STALE''
   \<and> is_dir linux_stale_disk (Path [''/'', ''media'', ''user'', ''DISK'']) = Inr True
   \<and> has_file linux_stale_disk (Path [''/'', ''media'', ''user'', ''DISK''])
   \<and> before_upload linux_stale_disk Map.empty =
       Inr [print_error Map.empty
              ''[Errno 107] Transport endpoint is not connected: /media/user/STALE'']"
proof -
  let ?w = linux_stale_disk
  have a: "getuser ?w = Inr ''user''"
    by (simp add: linux_stale_disk_def posix_host_def)
  have b: "listdir ?w (media_root ''user'') = Inr [''STALE'', ''DISK'']"
    by (simp add: linux_stale_disk_def host_simps)
  have c: "is_dir ?w (Path [''/'', ''media'', ''user'', ''STALE'']) =
       Inl ''[Errno 107] Transport endpoint is not connected: /media/user/STALE''"
    by (simp add: linux_stale_disk_def)
  have d: "is_dir ?w (Path [''/'', ''media'', ''user'', ''DISK'']) = Inr True"
    by (simp add: linux_stale_disk_def)
  have e: "has_file ?w (Path [''/'', ''media'', ''user'', ''DISK''])"
    by (simp add: linux_stale_disk_def has_file_def host_simps)
  have f: "before_upload ?w Map.empty =
       Inr [print_error Map.empty
              ''[Errno 107] Transport endpoint is not connected: /media/user/STALE'']"
    by (simp add: linux_stale_disk_def host_simps hook_simps)
  from a b c d e f show ?thesis by blast
qed

text \<open>
  Claim C8 as amended: on every operating system an error raised while one candidate is
  queried inside the scan loop (a failed \<^verbatim>\<open>vol\<close> or \<^verbatim>\<open>dir\<close> command on Windows, a
  failed listing of a subdirectory by \<^verbatim>\<open>iterdir\<close> or \<^verbatim>\<open>is_file\<close> on Linux and on macOS)
  only removes that candidate: the hook does what it does on the candidates that answer
  alone, after the \<^verbatim>\<open>error:\<close> lines that Windows prints for the others, and such an
  error never ends the resolution.
\<close>

theorem candidate_errors_are_skipped:
  "(current_OS w = ''Linux'' \<and> getuser w = Inr user \<and> subdirs w (media_root user) = Inr ds
      \<longrightarrow> before_upload w env =
        Inr (case find (has_file w) (filter (can_list w) ds) of
               None \<Rightarrow> [print_error env ''Autodetect Error'']
             | Some d \<Rightarrow> [Replace ''UPLOAD_FLAGS'' ''-P$UPLOAD_PORT'',
                          Replace ''UPLOAD_PORT'' (path_str d), upload_disk_line (path_str d)]))
   \<and> (current_OS w = ''Darwin'' \<and> subdirs w volumes_root = Inr ds
      \<longrightarrow> before_upload w env =
        Inr (case find (has_file w) (filter (can_list w) ds) of
               None \<Rightarrow> [print_error env ''Autodetect Error'']
             | Some d \<Rightarrow> [Replace ''UPLOAD_PORT'' (path_str d), upload_disk_line (path_str d)]))
   \<and> (current_OS w = ''Windows''
      \<longrightarrow> before_upload w env =
        Inr (query_errors w (takeWhile (\<lambda>d. \<not> drive_matches w d)
                               (get_drives (GetLogicalDrives w) ascii_uppercase))
             @ (case find (drive_matches w)
                       (filter (can_query w) (get_drives (GetLogicalDrives w) ascii_uppercase)) of
                  None \<Rightarrow> [print_error env ''Autodetect Error'']
                | Some d \<Rightarrow> [Replace ''UPLOAD_PORT'' [d, CHR '':''],
                             upload_disk_line [d, CHR '':'']])))"
proof -
  have ff: "find (has_file w) (filter (can_list w) ds) = find (has_file w) ds"
    by (rule find_filter) (rule has_file_can_list)
  have fq: "find (drive_matches w)
              (filter (can_query w) (get_drives (GetLogicalDrives w) ascii_uppercase)) =
            find (drive_matches w) (get_drives (GetLogicalDrives w) ascii_uppercase)"
    by (rule find_filter) (rule can_query_match)
  have a: "current_OS w = ''Linux'' \<and> getuser w = Inr user \<and> subdirs w (media_root user) = Inr ds
      \<longrightarrow> before_upload w env =
        Inr (case find (has_file w) (filter (can_list w) ds) of
               None \<Rightarrow> [print_error env ''Autodetect Error'']
             | Some d \<Rightarrow> [Replace ''UPLOAD_FLAGS'' ''-P$UPLOAD_PORT'',
                          Replace ''UPLOAD_PORT'' (path_str d), upload_disk_line (path_str d)])"
    unfolding ff by (auto simp: linux_hook)
  have b: "current_OS w = ''Darwin'' \<and> subdirs w volumes_root = Inr ds
      \<longrightarrow> before_upload w env =
        Inr (case find (has_file w) (filter (can_list w) ds) of
               None \<Rightarrow> [print_error env ''Autodetect Error'']
             | Some d \<Rightarrow> [Replace ''UPLOAD_PORT'' (path_str d), upload_disk_line (path_str d)])"
    unfolding ff by (auto simp: darwin_hook)
  have c: "current_OS w = ''Windows''
      \<longrightarrow> before_upload w env =
        Inr (query_errors w (takeWhile (\<lambda>d. \<not> drive_matches w d)
                               (get_drives (GetLogicalDrives w) ascii_uppercase))
             @ (case find (drive_matches w)
                       (filter (can_query w) (get_drives (GetLogicalDrives w) ascii_uppercase)) of
                  None \<Rightarrow> [print_error env ''Autodetect Error'']
                | Some d \<Rightarrow> [Replace ''UPLOAD_PORT'' [d, CHR '':''],
                             upload_disk_line [d, CHR '':'']]))"
    unfolding fq using windows_hook_find[of w env] by blast
  from a b c show ?thesis by blast
qed

theorem candidate_errors_are_skipped_witness:
  "subdirs linux_locked_disk (media_root ''user'') =
     Inr [Path [''/'', ''media'', ''user'', ''LOCKED''], Path [''/'', ''media'', ''user'', ''DISK'']]
   \<and> \<not> can_list linux_locked_disk (Path [''/'', ''media'', ''user'', ''LOCKED''])
   \<and> before_upload linux_locked_disk Map.empty =
       Inr [Replace ''UPLOAD_FLAGS'' ''-P$UPLOAD_PORT'',
            Replace ''UPLOAD_PORT'' ''/media/user/DISK'', upload_disk_line ''/media/user/DISK'']
   \<and> get_drives (GetLogicalDrives windows_c_file_d_label) ascii_uppercase = ''ACD''
   \<and> \<not> can_query windows_c_file_d_label CHR ''A''
   \<and> before_upload windows_c_file_d_label Map.empty =
       Inr [Print ''error:Command returned non-zero exit status 1.'',
            Replace ''UPLOAD_PORT'' ''C:'', upload_disk_line ''C:'']"
proof -
  let ?w = linux_locked_disk
  let ?ds = "[Path [''/'', ''media'', ''user'', ''LOCKED''], Path [''/'', ''media'', ''user'', ''DISK'']]"
  have os: "current_OS ?w = ''Linux''"
    by (simp add: linux_locked_disk_def posix_host_def)
  have us: "getuser ?w = Inr ''user''"
    by (simp add: linux_locked_disk_def posix_host_def)
  have sd: "subdirs ?w (media_root ''user'') = Inr ?ds"
    by (simp add: linux_locked_disk_def host_simps)
  have nl: "\<not> can_list ?w (Path [''/'', ''media'', ''user'', ''LOCKED''])"
    by (simp add: linux_locked_disk_def can_list_def host_simps)
  have cl: "can_list ?w (Path [''/'', ''media'', ''user'', ''DISK''])"
    by (simp add: linux_locked_disk_def can_list_def host_simps)
  have hf: "has_file ?w (Path [''/'', ''media'', ''user'', ''DISK''])"
    by (simp add: linux_locked_disk_def has_file_def host_simps)
  have ps: "path_str (Path [''/'', ''media'', ''user'', ''DISK'']) = ''/media/user/DISK''"
    by (simp add: path_str_def)
  from candidate_errors_are_skipped[of ?w "''user''" ?ds Map.empty] os us sd nl cl hf ps
  have r: "before_upload ?w Map.empty =
       Inr [Replace ''UPLOAD_FLAGS'' ''-P$UPLOAD_PORT'',
            Replace ''UPLOAD_PORT'' ''/media/user/DISK'', upload_disk_line ''/media/user/DISK'']"
    by simp
  let ?v = windows_c_file_d_label
  have wos: "current_OS ?v = ''Windows''"
    by (simp add: windows_c_file_d_label_def windows_host_def)
  have dr: "get_drives (GetLogicalDrives ?v) ascii_uppercase = ''ACD''"
    by (simp add: windows_c_file_d_label_def windows_simps)
  have qa: "\<not> can_query ?v CHR ''A''"
    by (simp add: windows_c_file_d_label_def can_query_def windows_simps)
  have qc: "can_query ?v CHR ''C''"
    by (simp add: windows_c_file_d_label_def can_query_def windows_simps)
  have ma: "\<not> drive_matches ?v CHR ''A''"
    by (simp add: windows_c_file_d_label_def drive_matches_def windows_simps)
  have mc: "drive_matches ?v CHR ''C''"
    by (simp add: windows_c_file_d_label_def drive_matches_def windows_simps)
  have qe: "query_errors ?v ''A'' = [Print ''error:Command returned non-zero exit status 1.'']"
    by (simp add: windows_c_file_d_label_def windows_simps)
  from candidate_errors_are_skipped[of ?v "''user''" "[]" Map.empty] wos
  have "before_upload ?v Map.empty =
        Inr (query_errors ?v (takeWhile (\<lambda>d. \<not> drive_matches ?v d) ''ACD'')
             @ (case find (drive_matches ?v) (filter (can_query ?v) ''ACD'') of
                  None \<Rightarrow> [print_error Map.empty ''Autodetect Error'']
                | Some d \<Rightarrow> [Replace ''UPLOAD_PORT'' [d, CHR '':''],
                             upload_disk_line [d, CHR '':'']]))"
    unfolding dr by blast
  then have v: "before_upload ?v Map.empty =
       Inr [Print ''error:Command returned non-zero exit status 1.'',
            Replace ''UPLOAD_PORT'' ''C:'', upload_disk_line ''C:'']"
    using qa qc ma mc qe by simp
  from sd nl r dr qa v show ?thesis by blast
qed

section \<open>Exceptions of the body\<close>

lemma try_body_raises:
  "try_body w env = Inl e \<longleftrightarrow>
     (current_OS w = ''Linux'' \<and>
        (getuser w = Inl e \<or> (\<exists>user. getuser w = Inr user \<and> subdirs w (media_root user) = Inl e)))
   \<or> (current_OS w = ''Darwin'' \<and> subdirs w volumes_root = Inl e)"
  by (auto simp: try_body_def linux_branch_def darwin_branch_def media_root_def
      volumes_root_def Let_def split: sum.splits)

lemma hook_raised: "try_body w env = Inl e \<Longrightarrow> before_upload w env = Inr [print_error env e]"
  by (simp add: before_upload_def)

lemma subdirs_listdir_raises: "listdir w root = Inl e \<Longrightarrow> subdirs w root = Inl e"
  by (simp add: subdirs_def iterdir_def)

lemma scan_windows_effects:
  "filter is_Replace (effects (scan_windows w ds s)) = filter is_Replace (effects s)"
proof (induction ds arbitrary: s)
  case Nil
  show ?case by simp
next
  case (Cons d ds)
  have "filter is_Replace (query_errors w [d]) = []"
    using query_errors_prints[of w "[d]"] by (simp only: filter_empty_conv)
  then show ?case
    using Cons by (simp add: scan_windows_step del: scan_windows.simps(2) query_errors.simps)
qed

lemma branch_effects_prints:
  assumes "try_body w env = Inr s"
  shows "\<exists>s0. s = finish env s0 \<and>
           (\<not> (target_file_found s0 \<or> target_drive_found s0) \<longrightarrow>
              (\<forall>x \<in> set (effects s0). \<not> is_Replace x))"
proof -
  consider (win) "current_OS w = ''Windows''" | (lin) "current_OS w = ''Linux''"
    | (mac) "current_OS w = ''Darwin''"
    | (other) "current_OS w \<noteq> ''Windows''" "current_OS w \<noteq> ''Linux''"
        "current_OS w \<noteq> ''Darwin''"
    by blast
  then show ?thesis
  proof cases
    case win
    let ?s0 = "scan_windows w (get_drives (GetLogicalDrives w) ascii_uppercase) initial"
    have "filter is_Replace (effects ?s0) = []"
      by (simp add: scan_windows_effects initial_def)
    then have "\<forall>x \<in> set (effects ?s0). \<not> is_Replace x"
      by (simp only: filter_empty_conv)
    moreover have "s = finish env ?s0"
      using assms win by (simp add: try_body_def)
    ultimately show ?thesis by blast
  next
    case lin
    then obtain s0 where s0: "linux_branch w initial = Inr s0" "s = finish env s0"
      using assms by (auto simp: try_body_def split: sum.splits)
    have e0: "effects initial = []" by (simp add: initial_def)
    from s0(1) have "\<not> (target_file_found s0 \<or> target_drive_found s0) \<longrightarrow> effects s0 = []"
      by (auto simp add: linux_branch_def Let_def py_in_str_paths scan_dirs_effects e0
          split: sum.splits if_splits)
    with s0(2) show ?thesis by auto
  next
    case mac
    then obtain s0 where s0: "darwin_branch w initial = Inr s0" "s = finish env s0"
      using assms by (auto simp: try_body_def split: sum.splits)
    have e0: "effects initial = []" by (simp add: initial_def)
    from s0(1) have "effects s0 = []"
      by (auto simp add: darwin_branch_def Let_def py_in_str_paths scan_dirs_effects e0
          split: sum.splits if_splits)
    with s0(2) show ?thesis by auto
  next
    case other
    then have "s = finish env initial"
      using assms by (simp add: try_body_def)
    moreover have "effects initial = []" by (simp add: initial_def)
    ultimately show ?thesis by auto
  qed
qed

text \<open>
  Claim C9: no exception leaves the hook: for every host and build configuration the
  hook returns to its caller. The exceptions that no handler of a loop catches are
  those of \<^verbatim>\<open>getpass.getuser()\<close> and of the comprehensions of lines 84 and 114 (the
  listing of the root \<^verbatim>\<open>/media/user\<close> or \<^verbatim>\<open>/Volumes\<close>, which fails when the root is
  missing, and \<^verbatim>\<open>is_dir\<close> on its entries); each is caught at line 139 and becomes the
  only effect of the hook, one printed diagnostic that carries the text of the
  exception. Every run ends either with the write of \<^verbatim>\<open>UPLOAD_PORT\<close> and the line
  naming the upload disk, or with one diagnostic and no write at all.
\<close>

theorem hook_reports_every_error:
  "(\<exists>es. before_upload w env = Inr es)
   \<and> (try_body w env = Inl e \<longleftrightarrow>
        (current_OS w = ''Linux'' \<and>
           (getuser w = Inl e \<or>
            (\<exists>user. getuser w = Inr user \<and> subdirs w (media_root user) = Inl e)))
      \<or> (current_OS w = ''Darwin'' \<and> subdirs w volumes_root = Inl e))
   \<and> ((current_OS w = ''Linux'' \<and>
           (getuser w = Inl e \<or>
            (\<exists>user. getuser w = Inr user \<and> subdirs w (media_root user) = Inl e)))
      \<or> (current_OS w = ''Darwin'' \<and> subdirs w volumes_root = Inl e)
      \<longrightarrow> before_upload w env = Inr [print_error env e])
   \<and> (listdir w root = Inl e \<longrightarrow> subdirs w root = Inl e)
   \<and> (\<exists>pre suf. print_error env e = Print (pre @ e @ suf))
   \<and> ((\<exists>pre p. before_upload w env =
                  Inr (pre @ [Replace ''UPLOAD_PORT'' p, upload_disk_line p]))
      \<or> (\<exists>pre cause. before_upload w env = Inr (pre @ [print_error env cause])
            \<and> (\<forall>x \<in> set pre. \<not> is_Replace x)))"
proof -
  have r: "\<exists>es. before_upload w env = Inr es"
    by (simp add: before_upload_def split: sum.splits)
  have a: "try_body w env = Inl e \<longleftrightarrow>
        (current_OS w = ''Linux'' \<and>
           (getuser w = Inl e \<or>
            (\<exists>user. getuser w = Inr user \<and> subdirs w (media_root user) = Inl e)))
      \<or> (current_OS w = ''Darwin'' \<and> subdirs w volumes_root = Inl e)"
    by (rule try_body_raises)
  have b: "(current_OS w = ''Linux'' \<and>
           (getuser w = Inl e \<or>
            (\<exists>user. getuser w = Inr user \<and> subdirs w (media_root user) = Inl e)))
      \<or> (current_OS w = ''Darwin'' \<and> subdirs w volumes_root = Inl e)
      \<longrightarrow> before_upload w env = Inr [print_error env e]"
    using hook_raised[of w env e] unfolding a by blast
  have l: "listdir w root = Inl e \<longrightarrow> subdirs w root = Inl e"
    using subdirs_listdir_raises by blast
  have c: "\<exists>pre suf. print_error env e = Print (pre @ e @ suf)"
    unfolding print_error_def by (metis append.assoc)
  have d: "(\<exists>pre p. before_upload w env =
                  Inr (pre @ [Replace ''UPLOAD_PORT'' p, upload_disk_line p]))
      \<or> (\<exists>pre cause. before_upload w env = Inr (pre @ [print_error env cause])
            \<and> (\<forall>x \<in> set pre. \<not> is_Replace x))"
  proof (cases "try_body w env")
    case (Inl x)
    then have "before_upload w env = Inr ([] @ [print_error env x])"
      by (simp add: before_upload_def)
    then show ?thesis by (metis empty_iff list.set(1))
  next
    case (Inr s)
    from branch_effects_prints[OF Inr] obtain s0 where s0: "s = finish env s0"
      "\<not> (target_file_found s0 \<or> target_drive_found s0) \<longrightarrow>
              (\<forall>x \<in> set (effects s0). \<not> is_Replace x)" by blast
    have bu: "before_upload w env = Inr (effects (finish env s0))"
      using Inr s0(1) by (simp add: before_upload_def)
    show ?thesis
    proof (cases "target_file_found s0 \<or> target_drive_found s0")
      case True
      then have "before_upload w env = Inr (effects s0 @
          [Replace ''UPLOAD_PORT'' (py_str (upload_disk s0)),
           upload_disk_line (py_str (upload_disk s0))])"
        unfolding bu by (simp add: finish_def upload_disk_line_def)
      then show ?thesis by blast
    next
      case False
      then have "before_upload w env = Inr (effects s0 @ [print_error env ''Autodetect Error''])"
        unfolding bu by (simp add: finish_def)
      with False s0(2) show ?thesis by blast
    qed
  qed
  from r a b l c d show ?thesis by blast
qed

theorem hook_reports_every_error_witness:
  "current_OS linux_no_media = ''Linux''
   \<and> getuser linux_no_media = Inr ''user''
   \<and> listdir linux_no_media (media_root ''user'') =
       Inl ''[Errno 2] No such file or directory: /media/user''
   \<and> before_upload linux_no_media Map.empty =
       Inr [print_error Map.empty ''[Errno 2] No such file or directory: /media/user'']
   \<and> getuser linux_no_user = Inl ''getpwuid(): uid not found: 1000''
   \<and> before_upload linux_no_user Map.empty =
       Inr [print_error Map.empty ''getpwuid(): uid not found: 1000'']"
proof -
  let ?w = linux_no_media
  let ?e = "''[Errno 2] No such file or directory: /media/user''"
  have os: "current_OS ?w = ''Linux''"
    by (simp add: linux_no_media_def posix_host_def)
  have us: "getuser ?w = Inr ''user''"
    by (simp add: linux_no_media_def posix_host_def)
  have ld: "listdir ?w (media_root ''user'') = Inl ?e"
    by (simp add: linux_no_media_def host_simps path_str_def)
  note t = hook_reports_every_error[of ?w Map.empty ?e "media_root ''user''"]
  from t ld have sd: "subdirs ?w (media_root ''user'') = Inl ?e"
    by blast
  from t os us sd have a: "before_upload ?w Map.empty = Inr [print_error Map.empty ?e]"
    by blast
  let ?v = linux_no_user
  let ?f = "''getpwuid(): uid not found: 1000''"
  have vos: "current_OS ?v = ''Linux''"
    by (simp add: linux_no_user_def posix_host_def)
  have vus: "getuser ?v = Inl ?f"
    by (simp add: linux_no_user_def)
  from hook_reports_every_error[of ?v Map.empty ?f volumes_root] vos vus
  have b: "before_upload ?v Map.empty = Inr [print_error Map.empty ?f]"
    by blast
  from os us ld a vus b show ?thesis by blast
qed

section \<open>The written upload port\<close>

lemma get_drives_member:
  assumes "c \<in> set (get_drives bm ls)"
  shows "\<exists>i<length ls. bit bm i \<and> c = ls ! i"
  using assms unfolding get_drives_eq by auto

lemma path_str_absolute: "is_absolute d \<Longrightarrow> \<exists>rest. path_str d = CHR ''/'' # rest"
  by (cases d) (auto simp: is_absolute_def path_str_def split: list.splits)

lemma absolute_not_sentinel: "is_absolute d \<Longrightarrow> path_str d \<noteq> ''Disk not found''"
  using path_str_absolute[of d] by auto

lemma port_of_subdir:
  assumes "subdirs w root = Inr ds" and "find (has_file w) ds = Some d" and "is_absolute root"
  shows "path_str d \<noteq> ''Disk not found'' \<and>
         (\<exists>names n. listdir w root = Inr names \<and> n \<in> set names
            \<and> is_dir w (Path (parts root @ [n])) = Inr True
            \<and> path_str d = path_str (Path (parts root @ [n])))"
proof -
  have mem: "d \<in> set ds" using assms(2) by (rule find_Some_member)
  from subdirs_member[OF assms(1) mem]
    absolute_not_sentinel[OF subdirs_absolute[OF assms(1) mem assms(3)]]
  show ?thesis by blast
qed

lemma windows_port:
  assumes "current_OS w = ''Windows''" and "before_upload w env = Inr es"
    and "Replace ''UPLOAD_PORT'' p \<in> set es"
  shows "\<exists>c \<in> set (get_drives (GetLogicalDrives w) ascii_uppercase). p = [c, CHR '':'']"
proof -
  let ?ds = "get_drives (GetLogicalDrives w) ascii_uppercase"
  let ?pre = "query_errors w (takeWhile (\<lambda>d. \<not> drive_matches w d) ?ds)"
  note h = windows_hook_find[OF assms(1), of env]
  have pr: "\<forall>x \<in> set ?pre. \<not> is_Replace x"
    by (rule query_errors_prints)
  show ?thesis
  proof (cases "find (drive_matches w) ?ds")
    case None
    with h assms(2) have "es = ?pre @ [print_error env ''Autodetect Error'']"
      by simp
    with pr print_error_not_Replace[of env "''Autodetect Error''"]
    have "\<forall>x \<in> set es. \<not> is_Replace x" by simp
    with assms(3) have "\<not> is_Replace (Replace ''UPLOAD_PORT'' p)" by blast
    then show ?thesis by simp
  next
    case (Some c)
    with h assms(2) have es: "es = ?pre @
        [Replace ''UPLOAD_PORT'' [c, CHR '':''], upload_disk_line [c, CHR '':'']]"
      by simp
    have "p = [c, CHR '':'']"
    proof (rule ccontr)
      assume ne: "p \<noteq> [c, CHR '':'']"
      from assms(3) have "Replace ''UPLOAD_PORT'' p \<in> set ?pre"
        unfolding es using ne by (auto simp: upload_disk_line_def)
      with pr have "\<not> is_Replace (Replace ''UPLOAD_PORT'' p)" by blast
      then show False by simp
    qed
    moreover have "c \<in> set ?ds" using Some by (rule find_Some_member)
    ultimately show ?thesis by blast
  qed
qed

text \<open>
  Claim C10: whenever the hook writes \<^verbatim>\<open>UPLOAD_PORT\<close>, the written path is one of the
  enumerated candidates of the current operating system: on Windows a drive letter
  whose bit is set in the bitmask of the logical drives, followed by a colon; on Linux
  a subdirectory of the user's media root; on macOS a subdirectory of \<^verbatim>\<open>/Volumes\<close>. It
  is never the initial value \<^verbatim>\<open>Disk not found\<close>.
\<close>

theorem upload_port_is_a_candidate:
  assumes "before_upload w env = Inr es" and "Replace ''UPLOAD_PORT'' p \<in> set es"
  shows "p \<noteq> ''Disk not found'' \<and>
    ((current_OS w = ''Windows'' \<and>
        (\<exists>i<26. bit (GetLogicalDrives w) i \<and> p = [ascii_uppercase ! i, CHR '':'']))
   \<or> (current_OS w = ''Linux'' \<and>
        (\<exists>user names n. getuser w = Inr user
           \<and> listdir w (media_root user) = Inr names \<and> n \<in> set names
           \<and> is_dir w (Path (parts (media_root user) @ [n])) = Inr True
           \<and> p = path_str (Path (parts (media_root user) @ [n]))))
   \<or> (current_OS w = ''Darwin'' \<and>
        (\<exists>names n. listdir w volumes_root = Inr names \<and> n \<in> set names
           \<and> is_dir w (Path (parts volumes_root @ [n])) = Inr True
           \<and> p = path_str (Path (parts volumes_root @ [n])))))"
proof -
  consider (win) "current_OS w = ''Windows''" | (lin) "current_OS w = ''Linux''"
    | (mac) "current_OS w = ''Darwin''"
    | (other) "current_OS w \<noteq> ''Windows''" "current_OS w \<noteq> ''Linux''"
        "current_OS w \<noteq> ''Darwin''"
    by blast
  then show ?thesis
  proof cases
    case win
    from windows_port[OF win assms] obtain c
      where c: "c \<in> set (get_drives (GetLogicalDrives w) ascii_uppercase)" "p = [c, CHR '':'']"
      by blast
    from get_drives_member[OF c(1)] obtain i
      where i: "i < length ascii_uppercase" "bit (GetLogicalDrives w) i" "c = ascii_uppercase ! i"
      by blast
    have "length ascii_uppercase = 26" by (simp add: ascii_uppercase_def)
    with i c(2) win show ?thesis by auto
  next
    case lin
    from assms obtain user ds d where d: "getuser w = Inr user"
      "subdirs w (media_root user) = Inr ds"
      "find (has_file w) ds = Some d" "p = path_str d"
      by (auto simp add: linux_hook[OF lin] print_error_def upload_disk_line_def
          split: sum.splits option.splits)
    from port_of_subdir[OF d(2,3) media_root_absolute] d(1,4) lin show ?thesis by auto
  next
    case mac
    from assms obtain ds d where d: "subdirs w volumes_root = Inr ds"
      "find (has_file w) ds = Some d" "p = path_str d"
      by (auto simp add: darwin_hook[OF mac] print_error_def upload_disk_line_def
          split: sum.splits option.splits)
    from port_of_subdir[OF d(1,2) volumes_root_absolute] d(3) mac show ?thesis by auto
  next
    case other
    with assms show ?thesis by (auto simp add: other_hook print_error_def)
  qed
qed

theorem upload_port_is_a_candidate_witness:
  "before_upload windows_c_file_d_label Map.empty =
     Inr [Print ''error:Command returned non-zero exit status 1.'',
          Replace ''UPLOAD_PORT'' ''C:'', upload_disk_line ''C:'']
   \<and> current_OS windows_c_file_d_label = ''Windows''
   \<and> (\<exists>i<26. bit (GetLogicalDrives windows_c_file_d_label) i
          \<and> ''C:'' = [ascii_uppercase ! i, CHR '':''])"
proof -
  let ?w = windows_c_file_d_label
  have os: "current_OS ?w = ''Windows''"
    by (simp add: windows_c_file_d_label_def windows_host_def)
  have h: "before_upload ?w Map.empty =
     Inr [Print ''error:Command returned non-zero exit status 1.'',
          Replace ''UPLOAD_PORT'' ''C:'', upload_disk_line ''C:'']"
    by (simp add: windows_c_file_d_label_def windows_simps hook_simps PureWindowsPath_def)
  have m: "Replace ''UPLOAD_PORT'' ''C:'' \<in>
      set [Print ''error:Command returned non-zero exit status 1.'',
           Replace ''UPLOAD_PORT'' ''C:'', upload_disk_line ''C:'']"
    by simp
  from upload_port_is_a_candidate[OF h m] os h show ?thesis by simp
qed

end
